theory Spec2Isabelle
  imports Main
begin

section \<open>The request pipeline of the Discogs client (discogs.go and the release call site)\<close>

text \<open>
  Go strings are byte sequences and are modelled as \<open>string\<close> (a list of 8-bit
  characters). Go's \<open>int\<close> and \<open>int64\<close> are taken as 64-bit and modelled by
  \<open>int\<close>: every integer the pipeline computes is a minimum, a conversion or a quotient
  of values already in range, so no operation below can overflow. The mutex of the client
  is not modelled: every operation is the sequential body it guards.
\<close>

subsection \<open>Library functions on strings\<close>

text \<open>\<open>strings.HasPrefix\<close> and \<open>strings.HasSuffix\<close>.\<close>

definition HasPrefix :: "string \<Rightarrow> string \<Rightarrow> bool" where
  "HasPrefix s p = (length p \<le> length s \<and> take (length p) s = p)"

definition HasSuffix :: "string \<Rightarrow> string \<Rightarrow> bool" where
  "HasSuffix s p = (length p \<le> length s \<and> drop (length s - length p) s = p)"

text \<open>
  \<open>strings.Split(s, sep)\<close> for a one-byte separator, as the library computes it: while
  the separator occurs in what is left of the string, the text before its first
  occurrence is the next substring and the text after it is what is left; what is left
  when the separator no longer occurs is the last substring.
\<close>

function Split :: "string \<Rightarrow> char \<Rightarrow> string list" where
  "Split s sep =
     (case dropWhile (\<lambda>c. c \<noteq> sep) s of
        [] \<Rightarrow> [s]
      | c # rest \<Rightarrow> takeWhile (\<lambda>c. c \<noteq> sep) s # Split rest sep)"
  by pat_completeness auto
termination
proof (relation "measure (\<lambda>(s, sep). length s)")
  show "wf (measure (\<lambda>(s, sep). length s))" by simp
next
  fix s :: string and sep c :: char and rest :: string
  assume "dropWhile (\<lambda>c. c \<noteq> sep) s = c # rest"
  then have "Suc (length rest) = length (dropWhile (\<lambda>c. c \<noteq> sep) s)" by simp
  also have "\<dots> \<le> length s" by (rule length_dropWhile_le)
  finally show "((rest, sep), (s, sep)) \<in> measure (\<lambda>(s, sep). length s)" by simp
qed

declare Split.simps [simp del]

text \<open>\<open>strings.Join(elems, sep)\<close> for a one-byte separator.\<close>

fun Join :: "string list \<Rightarrow> char \<Rightarrow> string" where
  "Join [] sep = []"
| "Join [w] sep = w"
| "Join (w # v # ws) sep = w @ sep # Join (v # ws) sep"

subsection \<open>Route matcher\<close>

type_synonym AuthType = string

definition AuthTypeUnknown :: AuthType where "AuthTypeUnknown = ''unknown''"
definition AuthTypeNone :: AuthType where "AuthTypeNone = ''none''"
definition AuthTypeKeySecret :: AuthType where "AuthTypeKeySecret = ''key-secret''"
definition AuthTypeOAuth :: AuthType where "AuthTypeOAuth = ''oauth''"
definition AuthTypePAT :: AuthType where "AuthTypePAT = ''personal-access-token''"

record HTTPError =
  StatusCode :: int
  Message :: string

text \<open>
  The error values of the package. The first four constructors are the package's own error
  types; the others stand for the errors of the libraries the pipeline calls, carrying the
  library's text, with the wrapping \<open>fmt.Errorf\<close> of \<open>Do\<close> as a constructor of its own.
\<close>

datatype error =
    ErrHTTP HTTPError
  | ErrMissingCredentials AuthType string
  | ErrMatchNotFound string
  | ErrReleaseNotFound int HTTPError
  | ErrURLParse string
  | ErrJSONMarshal string
  | ErrNewRequest string
  | ErrWait string
  | ErrRequestFailed string
  | ErrReadBody string
  | ErrUnmarshal string
  | ErrQueryValues string

text \<open>
  The loop of \<open>isMatch\<close> over \<open>routeParts\<close>, with its index: a part that starts with
  an opening brace and ends with a closing brace is skipped, any other part is compared
  with \<open>endpointParts[i]\<close>.
\<close>

fun isMatch_loop :: "nat \<Rightarrow> string list \<Rightarrow> string list \<Rightarrow> bool" where
  "isMatch_loop i [] endpointParts = True"
| "isMatch_loop i (part # rest) endpointParts =
     (if HasPrefix part ''{'' \<and> HasSuffix part ''}'' then isMatch_loop (Suc i) rest endpointParts
      else if part \<noteq> endpointParts ! i then False
      else isMatch_loop (Suc i) rest endpointParts)"

definition isMatch :: "string \<Rightarrow> string \<Rightarrow> bool" where
  "isMatch route endpoint =
     (let routeParts = Split route CHR ''/'';
          endpointParts = Split endpoint CHR ''/''
      in if length routeParts \<noteq> length endpointParts then False
         else isMatch_loop 0 routeParts endpointParts)"

text \<open>
  \<open>matchRoute\<close> ranges over a Go map, whose iteration order is not fixed. The table is
  therefore the list of its entries in the order this call happens to visit them; what is
  proved of \<open>matchRoute\<close> is proved for every such order.
\<close>

fun matchRoute :: "string \<Rightarrow> (string \<times> AuthType) list \<Rightarrow> AuthType \<times> error option" where
  "matchRoute endpoint [] = (AuthTypeUnknown, Some (ErrMatchNotFound endpoint))"
| "matchRoute endpoint ((route, authType) # rest) =
     (if isMatch route endpoint then (authType, None) else matchRoute endpoint rest)"

definition EndpointAuthMap :: "(string \<times> AuthType) list" where
  "EndpointAuthMap =
     [(''/test'', AuthTypeNone),
      (''/releases/{release_id}'', AuthTypeNone),
      (''/database/search'', AuthTypeKeySecret)]"

text \<open>The words of the specification about routes: segments and placeholders.\<close>

definition segments :: "string \<Rightarrow> string list" where
  "segments s = Split s CHR ''/''"

definition braceWrapped :: "string \<Rightarrow> bool" where
  "braceWrapped part = (part \<noteq> [] \<and> hd part = CHR ''{'' \<and> last part = CHR ''}'')"

definition patternMatches :: "string \<Rightarrow> string \<Rightarrow> bool" where
  "patternMatches route endpoint =
     (length (segments route) = length (segments endpoint) \<and>
      (\<forall>i < length (segments route).
         \<not> braceWrapped (segments route ! i) \<longrightarrow> segments route ! i = segments endpoint ! i))"


subsection \<open>Integers and decimal text\<close>

text \<open>
  Go's integer quotient truncates towards zero (HOL's \<open>div\<close> rounds down) and panics
  on a zero divisor. The source divides only behind a test that the divisor is positive
  or non-zero, or by a positive constant, so \<open>quo\<close> is never reached with divisor zero.
\<close>

definition quo :: "int \<Rightarrow> int \<Rightarrow> int" where
  "quo a b = sgn a * sgn b * (\<bar>a\<bar> div \<bar>b\<bar>)"

definition isDigit :: "char \<Rightarrow> bool" where
  "isDigit c = (48 \<le> (of_char c :: nat) \<and> (of_char c :: nat) \<le> 57)"

definition digitsValue :: "string \<Rightarrow> nat" where
  "digitsValue s = fold (\<lambda>ch n. n * 10 + ((of_char ch :: nat) - 48)) s 0"

text \<open>
  \<open>strconv.Atoi\<close>: an optional sign, then one or more decimal digits and nothing else,
  with a value that fits a 64-bit \<open>int\<close>; every other text is an error (\<open>None\<close>).
\<close>

definition strconv_Atoi :: "string \<Rightarrow> int option" where
  "strconv_Atoi s =
     (case s of
        [] \<Rightarrow> None
      | c # cs \<Rightarrow>
          (let ds = (if c = CHR ''-'' \<or> c = CHR ''+'' then cs else s)
           in if ds = [] \<or> \<not> list_all isDigit ds then None
              else (let n = int (digitsValue ds);
                        v = (if c = CHR ''-'' then - n else n)
                    in if v < - (2 ^ 63) \<or> 2 ^ 63 - 1 < v then None else Some v)))"

function decimal :: "nat \<Rightarrow> string" where
  "decimal n =
     (if n < 10 then [''0123456789'' ! n] else decimal (n div 10) @ [''0123456789'' ! (n mod 10)])"
  by pat_completeness auto
termination
  by (relation "measure id") auto

text \<open>\<open>strconv.FormatInt(i, 10)\<close>.\<close>

definition strconv_FormatInt :: "int \<Rightarrow> string" where
  "strconv_FormatInt i = (if i < 0 then CHR ''-'' # decimal (nat (- i)) else decimal (nat i))"

subsection \<open>HTTP headers, requests and responses\<close>

definition BaseURL :: string where "BaseURL = ''https://api.discogs.com''"
definition DefaultAppName :: string where "DefaultAppName = ''DiscogsGo/0.1''"
definition AuthHeader :: string where "AuthHeader = ''Authorization''"
definition UserAgentHeader :: string where "UserAgentHeader = ''User-Agent''"
definition RateLimitHeader :: string where "RateLimitHeader = ''X-Discogs-Ratelimit''"
definition RateLimitUnauth :: int where "RateLimitUnauth = 25"
definition RateLimitAuth :: int where "RateLimitAuth = 60"

text \<open>
  \<open>http.Header\<close> is a map from canonical header names to lists of values; \<open>Get\<close> and
  \<open>Set\<close> canonicalise the name they are given (\<open>textproto.CanonicalMIMEHeaderKey\<close>:
  a name of token bytes only gets an upper-case letter first and after each dash and
  lower-case letters elsewhere; any other name is left as it is).
\<close>

type_synonym Header = "string \<rightharpoonup> string list"

definition validHeaderFieldByte :: "char \<Rightarrow> bool" where
  "validHeaderFieldByte c =
     (let n = (of_char c :: nat)
      in (48 \<le> n \<and> n \<le> 57) \<or> (65 \<le> n \<and> n \<le> 90) \<or> (97 \<le> n \<and> n \<le> 122) \<or>
         n \<in> set [33, 35, 36, 37, 38, 39, 42, 43, 45, 46, 94, 95, 96, 124, 126])"

fun canonical_loop :: "bool \<Rightarrow> string \<Rightarrow> string" where
  "canonical_loop upper [] = []"
| "canonical_loop upper (c # cs) =
     (let n = (of_char c :: nat);
          c' = (if upper \<and> 97 \<le> n \<and> n \<le> 122 then char_of (n - 32)
                else if \<not> upper \<and> 65 \<le> n \<and> n \<le> 90 then char_of (n + 32)
                else c)
      in c' # canonical_loop (c' = CHR ''-'') cs)"

definition CanonicalMIMEHeaderKey :: "string \<Rightarrow> string" where
  "CanonicalMIMEHeaderKey s = (if list_all validHeaderFieldByte s then canonical_loop True s else s)"

definition Header_Get :: "Header \<Rightarrow> string \<Rightarrow> string" where
  "Header_Get h key =
     (case h (CanonicalMIMEHeaderKey key) of
        None \<Rightarrow> []
      | Some [] \<Rightarrow> []
      | Some (v # vs) \<Rightarrow> v)"

definition Header_Set :: "Header \<Rightarrow> string \<Rightarrow> string \<Rightarrow> Header" where
  "Header_Set h key v = h(CanonicalMIMEHeaderKey key \<mapsto> [v])"

record URL =
  Scheme :: string
  Authority :: string
  Path :: string
  RawQuery :: string

record Request =
  Method :: string
  reqURL :: URL
  reqHeader :: Header
  Body :: "string option"

text \<open>
  A response as the transport hands it over. \<open>resBody\<close> is what \<open>io.ReadAll\<close> of the
  body stream gives: the bytes of the body, or the text of a read error.
\<close>

record Response =
  resStatusCode :: int
  resHeader :: Header
  resBody :: "string + string"

subsection \<open>Rate limiter, configuration and client\<close>

text \<open>
  A \<open>rate.Limit\<close> made by \<open>rate.Every\<close>: a non-positive interval gives the infinite
  limit \<open>rate.Inf\<close>, a positive interval of \<open>d\<close> nanoseconds the limit of one event
  every \<open>d\<close> nanoseconds (the floating-point number of events per second that the
  library stores for it is not computed). The limiter is its configured limit and burst;
  its token count and clock are not modelled.
\<close>

datatype Limit = rate_Inf | Interval int

definition rate_Every :: "int \<Rightarrow> Limit" where
  "rate_Every interval = (if interval \<le> 0 then rate_Inf else Interval interval)"

definition time_Minute :: int where "time_Minute = 60000000000"

record Limiter =
  limit :: Limit
  burst :: int

definition rate_NewLimiter :: "Limit \<Rightarrow> int \<Rightarrow> Limiter" where
  "rate_NewLimiter r b = \<lparr>limit = r, burst = b\<rparr>"

definition SetLimit :: "Limiter \<Rightarrow> Limit \<Rightarrow> Limiter" where
  "SetLimit lim newLimit = lim\<lparr>limit := newLimit\<rparr>"

definition SetBurst :: "Limiter \<Rightarrow> int \<Rightarrow> Limiter" where
  "SetBurst lim newBurst = lim\<lparr>burst := newBurst\<rparr>"

record DiscogsConfig =
  AppName :: string
  ConsumerKey :: "string option"
  ConsumerSecret :: "string option"
  AccessToken :: "string option"
  MaxRequests :: int

record DiscogsClient =
  Host :: string
  Config :: DiscogsConfig
  rateLimiter :: Limiter

definition NewDiscogsClient :: "DiscogsConfig \<Rightarrow> DiscogsClient" where
  "NewDiscogsClient config0 =
     (let config = (if AppName config0 = [] then config0\<lparr>AppName := DefaultAppName\<rparr> else config0);
          limiter =
            (if MaxRequests config > 0
             then rate_NewLimiter (rate_Every (quo time_Minute (MaxRequests config))) (MaxRequests config)
             else (let requestsPerMinute =
                         (if ConsumerKey config \<noteq> None \<and> ConsumerSecret config \<noteq> None
                          then RateLimitAuth else RateLimitUnauth)
                   in rate_NewLimiter (rate_Every (quo time_Minute requestsPerMinute)) requestsPerMinute))
      in \<lparr>Host = BaseURL, Config = config, rateLimiter = limiter\<rparr>)"

definition SetMaxRequests :: "DiscogsClient \<Rightarrow> int \<Rightarrow> DiscogsClient" where
  "SetMaxRequests dc requestsPerMinute =
     (if requestsPerMinute > 0
      then (let dc1 = dc\<lparr>Config := (Config dc)\<lparr>MaxRequests := requestsPerMinute\<rparr>\<rparr>;
                lim = rate_Every (quo time_Minute requestsPerMinute)
            in dc1\<lparr>rateLimiter := SetBurst (SetLimit (rateLimiter dc1) lim) requestsPerMinute\<rparr>)
      else dc)"

definition updateRateLimitFromHeader :: "DiscogsClient \<Rightarrow> Response \<Rightarrow> DiscogsClient" where
  "updateRateLimitFromHeader dc res =
     (let rateLimitHeader = Header_Get (resHeader res) RateLimitHeader
      in if rateLimitHeader \<noteq> [] then
           (case strconv_Atoi rateLimitHeader of
              None \<Rightarrow> dc
            | Some rateLimit \<Rightarrow>
                (let effectiveLimit =
                       (if MaxRequests (Config dc) > 0 then min (MaxRequests (Config dc)) rateLimit
                        else rateLimit)
                 in if effectiveLimit \<noteq> 0
                    then dc\<lparr>rateLimiter :=
                              SetBurst (SetLimit (rateLimiter dc)
                                          (rate_Every (quo time_Minute effectiveLimit)))
                                       effectiveLimit\<rparr>
                    else dc))
         else dc)"

text \<open>The client after the responses of a list have been processed, first to last.\<close>

definition updateAll :: "DiscogsClient \<Rightarrow> Response list \<Rightarrow> DiscogsClient" where
  "updateAll dc rs = foldl updateRateLimitFromHeader dc rs"

subsection \<open>Auth header builder\<close>

text \<open>The request is mutated in place; the model returns it next to the error.\<close>

definition addAuthHeaders :: "DiscogsClient \<Rightarrow> Request \<Rightarrow> AuthType \<Rightarrow> error option \<times> Request" where
  "addAuthHeaders dc req authType =
     (if authType = AuthTypeNone then (None, req)
      else if authType = AuthTypeKeySecret then
        (case (ConsumerKey (Config dc), ConsumerSecret (Config dc)) of
           (Some k, Some s) \<Rightarrow>
             (None, req\<lparr>reqHeader := Header_Set (reqHeader req) AuthHeader
                                      (''Discogs key='' @ k @ '', secret='' @ s)\<rparr>)
         | _ \<Rightarrow> (Some (ErrMissingCredentials authType (Path (reqURL req))), req))
      else if authType = AuthTypeOAuth \<or> authType = AuthTypePAT then
        (case AccessToken (Config dc) of
           Some t \<Rightarrow> (None, req\<lparr>reqHeader := Header_Set (reqHeader req) AuthHeader (''Bearer '' @ t)\<rparr>)
         | None \<Rightarrow> (Some (ErrMissingCredentials authType (Path (reqURL req))), req))
      else (None, req))"

subsection \<open>Request pipeline\<close>

text \<open>
  The libraries and the world the pipeline calls are parameters of the model, one field
  of \<open>env\<close> for each call: what that call returns for the arguments it is given, with
  \<open>Inl\<close> (or \<open>Some\<close>) carrying the text of the error it returns. The type variables are
  the types of a request payload (\<open>'b\<close>), of the value behind the output slot (\<open>'r\<close>),
  of a call site's options (\<open>'o\<close>) and of a \<open>context.Context\<close> (\<open>'c\<close>).
\<close>

type_synonym Values = "(string \<times> string list) list"

record ('b, 'r, 'o, 'c) env =
  url_Parse :: "string \<Rightarrow> string + URL"
  URL_String :: "URL \<Rightarrow> string"
  Values_Encode :: "Values \<Rightarrow> string"
  json_Marshal :: "'b \<Rightarrow> string + string"
  http_NewRequestWithContext :: "'c \<Rightarrow> string \<Rightarrow> string \<Rightarrow> string option \<Rightarrow> string + Request"
  Limiter_Wait :: "'c \<Rightarrow> Limiter \<Rightarrow> string option"
  Client_Do :: "Request \<Rightarrow> string + Response"
  json_Unmarshal :: "string \<Rightarrow> 'r \<Rightarrow> string option \<times> 'r"
  query_Values :: "'o \<Rightarrow> string + Values"
  zero_value :: "'r"

text \<open>
  The calls that reach outside the client are recorded, in order: the acquisition of a
  limiter token, the transport exchange and the JSON decoding into the output slot.
\<close>

datatype event = EvWait | EvTransport Request | EvUnmarshal string

text \<open>
  What a call leaves behind: the error it returns (\<open>None\<close> for \<open>nil\<close>), the client
  with its limiter as updated, the value behind the output slot (\<open>None\<close> for a \<open>nil\<close>
  slot) and the calls made.
\<close>

record 'r outcome =
  err :: "error option"
  client :: DiscogsClient
  slot :: "'r option"
  trace :: "event list"

definition Do :: "('b, 'r, 'o, 'c) env \<Rightarrow> DiscogsClient \<Rightarrow> 'c \<Rightarrow> Request \<Rightarrow> 'r option \<Rightarrow> 'r outcome" where
  "Do env dc ctx req res =
     (case Limiter_Wait env ctx (rateLimiter dc) of
        Some e \<Rightarrow> \<lparr>err = Some (ErrWait e), client = dc, slot = res, trace = [EvWait]\<rparr>
      | None \<Rightarrow>
          (case Client_Do env req of
             Inl e \<Rightarrow> \<lparr>err = Some (ErrRequestFailed e), client = dc, slot = res,
                       trace = [EvWait, EvTransport req]\<rparr>
           | Inr response \<Rightarrow>
               (let dc' = updateRateLimitFromHeader dc response
                in case resBody response of
                     Inl e \<Rightarrow> \<lparr>err = Some (ErrReadBody e), client = dc', slot = res,
                               trace = [EvWait, EvTransport req]\<rparr>
                   | Inr responseBody \<Rightarrow>
                       if resStatusCode response < 200 \<or> resStatusCode response \<ge> 300
                       then \<lparr>err = Some (ErrHTTP \<lparr>StatusCode = resStatusCode response,
                                                   Message = responseBody\<rparr>),
                             client = dc', slot = res, trace = [EvWait, EvTransport req]\<rparr>
                       else (case res of
                               Some v \<Rightarrow>
                                 if length responseBody > 0
                                 then (case json_Unmarshal env responseBody v of
                                         (Some e, v') \<Rightarrow>
                                           \<lparr>err = Some (ErrUnmarshal e), client = dc', slot = Some v',
                                            trace = [EvWait, EvTransport req, EvUnmarshal responseBody]\<rparr>
                                       | (None, v') \<Rightarrow>
                                           \<lparr>err = None, client = dc', slot = Some v',
                                            trace = [EvWait, EvTransport req, EvUnmarshal responseBody]\<rparr>)
                                 else \<lparr>err = None, client = dc', slot = res,
                                       trace = [EvWait, EvTransport req]\<rparr>
                             | None \<Rightarrow> \<lparr>err = None, client = dc', slot = res,
                                         trace = [EvWait, EvTransport req]\<rparr>))))"

text \<open>A return of \<open>request\<close> before \<open>Do\<close> is reached: nothing was called, nothing changed.\<close>

definition abort :: "DiscogsClient \<Rightarrow> 'r option \<Rightarrow> error \<Rightarrow> 'r outcome" where
  "abort dc res e = \<lparr>err = Some e, client = dc, slot = res, trace = []\<rparr>"

text \<open>
  The request body of \<open>request\<close>: none for a \<open>nil\<close> payload, else the payload's JSON
  text, or the error of \<open>json.Marshal\<close>.
\<close>

definition encodeBody :: "('b, 'r, 'o, 'c) env \<Rightarrow> 'b option \<Rightarrow> string + string option" where
  "encodeBody env body =
     (case body of
        None \<Rightarrow> Inr None
      | Some b \<Rightarrow> (case json_Marshal env b of
                     Inl e \<Rightarrow> Inl e
                   | Inr encoded \<Rightarrow> Inr (Some encoded)))"

text \<open>
  \<open>request\<close> reads the global route table; \<open>authMap\<close> is that table as this call visits
  it. \<open>headers\<close> is the caller's header map in the order the loop visits it (the empty
  list for \<open>nil\<close>); \<open>params\<close>, \<open>body\<close> and \<open>res\<close> are \<open>None\<close> for \<open>nil\<close>.
\<close>

definition request ::
  "('b, 'r, 'o, 'c) env \<Rightarrow> (string \<times> AuthType) list \<Rightarrow> DiscogsClient \<Rightarrow> 'c \<Rightarrow> string \<Rightarrow> string \<Rightarrow>
   Values option \<Rightarrow> (string \<times> string) list \<Rightarrow> 'b option \<Rightarrow> 'r option \<Rightarrow> 'r outcome" where
  "request env authMap dc ctx method endpoint params headers body res =
     (case url_Parse env (Host dc @ endpoint) of
        Inl e \<Rightarrow> abort dc res (ErrURLParse e)
      | Inr parsed \<Rightarrow>
          (let params' = (case params of None \<Rightarrow> [] | Some p \<Rightarrow> p);
               baseURL = parsed\<lparr>RawQuery := Values_Encode env params'\<rparr>
           in case encodeBody env body of
                Inl e \<Rightarrow> abort dc res (ErrJSONMarshal e)
              | Inr reqBody \<Rightarrow>
                  (case http_NewRequestWithContext env ctx method (URL_String env baseURL) reqBody of
                     Inl e \<Rightarrow> abort dc res (ErrNewRequest e)
                   | Inr req0 \<Rightarrow>
                       (let req1 = fold (\<lambda>(headerKey, headerValue) r.
                                           r\<lparr>reqHeader := Header_Set (reqHeader r) headerKey headerValue\<rparr>)
                                        headers req0
                        in case matchRoute endpoint authMap of
                             (authType, Some e) \<Rightarrow> abort dc res e
                           | (authType, None) \<Rightarrow>
                               (let req2 = req1\<lparr>reqHeader := Header_Set (reqHeader req1) UserAgentHeader
                                                               (AppName (Config dc))\<rparr>
                                in case addAuthHeaders dc req2 authType of
                                     (Some e, req3) \<Rightarrow> abort dc res e
                                   | (None, req3) \<Rightarrow> Do env dc ctx req3 res)))))"

definition Get ::
  "('b, 'r, 'o, 'c) env \<Rightarrow> (string \<times> AuthType) list \<Rightarrow> DiscogsClient \<Rightarrow> 'c \<Rightarrow> string \<Rightarrow>
   Values option \<Rightarrow> (string \<times> string) list \<Rightarrow> 'r option \<Rightarrow> 'r outcome" where
  "Get env authMap dc ctx endpoint params headers res =
     request env authMap dc ctx ''GET'' endpoint params headers None res"

definition Post ::
  "('b, 'r, 'o, 'c) env \<Rightarrow> (string \<times> AuthType) list \<Rightarrow> DiscogsClient \<Rightarrow> 'c \<Rightarrow> string \<Rightarrow>
   Values option \<Rightarrow> (string \<times> string) list \<Rightarrow> 'b option \<Rightarrow> 'r option \<Rightarrow> 'r outcome" where
  "Post env authMap dc ctx endpoint params headers body res =
     request env authMap dc ctx ''POST'' endpoint params headers body res"

definition Put ::
  "('b, 'r, 'o, 'c) env \<Rightarrow> (string \<times> AuthType) list \<Rightarrow> DiscogsClient \<Rightarrow> 'c \<Rightarrow> string \<Rightarrow>
   Values option \<Rightarrow> (string \<times> string) list \<Rightarrow> 'b option \<Rightarrow> 'r option \<Rightarrow> 'r outcome" where
  "Put env authMap dc ctx endpoint params headers body res =
     request env authMap dc ctx ''PUT'' endpoint params headers body res"

definition Delete ::
  "('b, 'r, 'o, 'c) env \<Rightarrow> (string \<times> AuthType) list \<Rightarrow> DiscogsClient \<Rightarrow> 'c \<Rightarrow> string \<Rightarrow>
   Values option \<Rightarrow> (string \<times> string) list \<Rightarrow> 'r option \<Rightarrow> 'r outcome" where
  "Delete env authMap dc ctx endpoint params headers res =
     request env authMap dc ctx ''DELETE'' endpoint params headers None res"

subsection \<open>The release call site\<close>

text \<open>
  \<open>Release\<close> returns a pointer to its result and an error. In the outcome, \<open>slot\<close> is
  the returned pointer (\<open>None\<close> for \<open>nil\<close>) and \<open>err\<close> the returned error. The result
  variable starts at the zero value of its type. \<open>int(releaseID)\<close> is the identity on a
  64-bit platform.
\<close>

definition Release ::
  "('b, 'r, 'o, 'c) env \<Rightarrow> (string \<times> AuthType) list \<Rightarrow> DiscogsClient \<Rightarrow> 'c \<Rightarrow> int \<Rightarrow> 'o \<Rightarrow> 'r outcome" where
  "Release env authMap dc ctx releaseID options =
     (let endpoint = ''/releases/'' @ strconv_FormatInt releaseID;
          res = zero_value env
      in case query_Values env options of
           Inl e \<Rightarrow> \<lparr>err = Some (ErrQueryValues e), client = dc, slot = None, trace = []\<rparr>
         | Inr params \<Rightarrow>
             (let r = Get env authMap dc ctx endpoint (Some params) [] (Some res)
              in case err r of
                   Some (ErrHTTP httpErr) \<Rightarrow>
                     if StatusCode httpErr = 404
                     then r\<lparr>err := Some (ErrReleaseNotFound releaseID httpErr), slot := None\<rparr>
                     else r\<lparr>err := Some (ErrHTTP httpErr), slot := None\<rparr>
                 | Some e \<Rightarrow> r\<lparr>err := Some e, slot := None\<rparr>
                 | None \<Rightarrow> r))"

subsection \<open>Values of the package's tests\<close>

text \<open>
  \<open>createMockResponse\<close> of the tests: a recorded response (status 200, empty body)
  whose rate-limit header is the decimal text of the given number.
\<close>

definition createMockResponse :: "int \<Rightarrow> Response" where
  "createMockResponse rateLimit =
     \<lparr>resStatusCode = 200,
      resHeader = Header_Set Map.empty RateLimitHeader (strconv_FormatInt rateLimit),
      resBody = Inr []\<rparr>"

definition emptyConfig :: DiscogsConfig where
  "emptyConfig = \<lparr>AppName = [], ConsumerKey = None, ConsumerSecret = None,
                   AccessToken = None, MaxRequests = 0\<rparr>"

text \<open>
  A mock of the world around the client, as the tests set one up: a server on a local
  host that answers every exchange with the given response (or a transport that fails
  with the given text), a URL parser for addresses on that host, a limiter that grants
  its token at once, a payload that is a name or a number that is not one (which
  \<open>json.Marshal\<close> rejects), and a result that is the text of a JSON object. A context
  is \<open>None\<close> for \<open>nil\<close> and \<open>Some ()\<close> for \<open>context.Background()\<close>.
\<close>

datatype payload = Name string | NaN

definition serverURL :: string where "serverURL = ''http://127.0.0.1''"

definition mockParse :: "string \<Rightarrow> string + URL" where
  "mockParse s =
     (if HasPrefix s (serverURL @ ''/'')
      then Inr \<lparr>Scheme = ''http'', Authority = ''127.0.0.1'',
                Path = takeWhile (\<lambda>c. c \<noteq> CHR ''?'') (drop (length serverURL) s),
                RawQuery = drop 1 (dropWhile (\<lambda>c. c \<noteq> CHR ''?'') (drop (length serverURL) s))\<rparr>
      else Inl ''unsupported address'')"

definition mockEnv :: "string + Response \<Rightarrow> (payload, string, unit, unit option) env" where
  \<open>mockEnv exchange =
     \<lparr>url_Parse = mockParse,
      URL_String = (\<lambda>u. Scheme u @ ''://'' @ Authority u @ Path u @
                          (if RawQuery u = [] then [] else CHR ''?'' # RawQuery u)),
      Values_Encode = (\<lambda>vs. concat (map (\<lambda>(k, xs). concat (map (\<lambda>x. k @ ''='' @ x @ ''&'') xs)) vs)),
      json_Marshal = (\<lambda>b. case b of Name n \<Rightarrow> Inr (''{"name":"'' @ n @ ''"}'')
                                     | NaN \<Rightarrow> Inl ''json: unsupported value: NaN''),
      http_NewRequestWithContext =
        (\<lambda>ctx method url body.
           case ctx of
             None \<Rightarrow> Inl ''net/http: nil Context''
           | Some u \<Rightarrow> (case mockParse url of
                          Inl e \<Rightarrow> Inl e
                        | Inr parsed \<Rightarrow> Inr \<lparr>Method = method, reqURL = parsed,
                                               reqHeader = Map.empty, Body = body\<rparr>)),
      Limiter_Wait = (\<lambda>ctx lim. None),
      Client_Do = (\<lambda>req. exchange),
      json_Unmarshal = (\<lambda>body v. if HasPrefix body ''{'' \<and> HasSuffix body ''}'' then (None, body)
                                   else (Some ''invalid character'', v)),
      query_Values = (\<lambda>options. Inr []),
      zero_value = []\<rparr>\<close>

definition mockServer :: "int \<Rightarrow> string \<Rightarrow> (payload, string, unit, unit option) env" where
  "mockServer status body =
     mockEnv (Inr \<lparr>resStatusCode = status, resHeader = Map.empty, resBody = Inr body\<rparr>)"

definition mockRequest :: "string \<Rightarrow> string \<Rightarrow> string option \<Rightarrow> Request" where
  "mockRequest method path body =
     \<lparr>Method = method,
      reqURL = \<lparr>Scheme = ''http'', Authority = ''127.0.0.1'', Path = path, RawQuery = []\<rparr>,
      reqHeader = Map.empty, Body = body\<rparr>"

definition testClient :: "DiscogsConfig \<Rightarrow> DiscogsClient" where
  "testClient config = (NewDiscogsClient config)\<lparr>Host := serverURL\<rparr>"

text \<open>Bodies the mock server of the tests answers with, and a configuration with credentials.\<close>

definition notFoundBody :: string where
  \<open>notFoundBody = ''{"message":"Release not found."}''\<close>

definition serverErrorBody :: string where
  \<open>serverErrorBody = ''{"message":"Internal server error."}''\<close>

definition releaseBody :: string where
  \<open>releaseBody = ''{"title":"Test Release","id":1}''\<close>

definition keyedConfig :: DiscogsConfig where
  "keyedConfig = emptyConfig\<lparr>AppName := ''DiscogsGo/0.1'', ConsumerKey := Some ''key'',
                              ConsumerSecret := Some ''secret''\<rparr>"

subsection \<open>Facts about splitting and matching\<close>

lemma Split_Nil: "Split [] sep = [[]]"
  by (simp add: Split.simps)

lemma Split_Cons:
  "Split (c # cs) sep =
     (if c = sep then [] # Split cs sep else (c # hd (Split cs sep)) # tl (Split cs sep))"
proof (cases "c = sep")
  case True
  have "Split (sep # cs) sep = [] # Split cs sep"
    by (subst Split.simps) simp
  with True show ?thesis by simp
next
  case False
  show ?thesis
  proof (cases "dropWhile (\<lambda>c. c \<noteq> sep) cs")
    case Nil
    have "Split cs sep = [cs]"
      by (subst Split.simps) (simp add: Nil)
    moreover have "Split (c # cs) sep = [c # cs]"
      by (subst Split.simps) (simp add: Nil False)
    ultimately show ?thesis using False by simp
  next
    case (Cons d rest)
    have "Split cs sep = takeWhile (\<lambda>c. c \<noteq> sep) cs # Split rest sep"
      by (subst Split.simps) (simp add: Cons)
    moreover have "Split (c # cs) sep = (c # takeWhile (\<lambda>c. c \<noteq> sep) cs) # Split rest sep"
      by (subst Split.simps) (simp add: Cons False)
    ultimately show ?thesis using False by simp
  qed
qed

lemma Split_nonempty: "Split s sep \<noteq> []"
  by (induction s) (auto simp: Split_Nil Split_Cons)

lemma Split_no_sep: "\<forall>w \<in> set (Split s sep). sep \<notin> set w"
proof (induction s)
  case Nil
  then show ?case by (simp add: Split_Nil)
next
  case (Cons c cs)
  have ne: "Split cs sep \<noteq> []" by (rule Split_nonempty)
  then obtain w ws where eq: "Split cs sep = w # ws" by (cases "Split cs sep") auto
  with Cons show ?case by (auto simp: Split_Cons)
qed

lemma Split_length: "length (Split s sep) = Suc (length (filter (\<lambda>c. c = sep) s))"
proof (induction s)
  case Nil
  then show ?case by (simp add: Split_Nil)
next
  case (Cons c cs)
  have "Split cs sep \<noteq> []" by (rule Split_nonempty)
  then have "length (tl (Split cs sep)) = length (Split cs sep) - 1" by simp
  with Cons show ?case by (simp add: Split_Cons)
qed

lemma Join_Split: "Join (Split s sep) sep = s"
proof (induction s)
  case Nil
  then show ?case by (simp add: Split_Nil)
next
  case (Cons c cs)
  obtain w ws where eq: "Split cs sep = w # ws"
    using Split_nonempty [of cs sep] by (cases "Split cs sep") auto
  with Cons show ?case
    by (cases ws) (auto simp: Split_Cons)
qed

lemma braceWrapped_iff: "braceWrapped part \<longleftrightarrow> HasPrefix part ''{'' \<and> HasSuffix part ''}''"
proof (cases part rule: rev_cases)
  case Nil
  then show ?thesis by (simp add: braceWrapped_def HasPrefix_def HasSuffix_def)
next
  case (snoc ys y)
  then show ?thesis
    by (cases ys) (auto simp: braceWrapped_def HasPrefix_def HasSuffix_def)
qed

lemma isMatch_loop_iff:
  "isMatch_loop i rs es \<longleftrightarrow> (\<forall>j < length rs. \<not> braceWrapped (rs ! j) \<longrightarrow> rs ! j = es ! (i + j))"
proof (induction rs arbitrary: i)
  case Nil
  then show ?case by simp
next
  case (Cons r rs)
  have step: "(\<forall>j < Suc (length rs). \<not> braceWrapped ((r # rs) ! j) \<longrightarrow> (r # rs) ! j = es ! (i + j))
      \<longleftrightarrow> ((\<not> braceWrapped r \<longrightarrow> r = es ! i) \<and>
           (\<forall>j < length rs. \<not> braceWrapped (rs ! j) \<longrightarrow> rs ! j = es ! (Suc i + j)))"
    by (auto simp: less_Suc_eq_0_disj)
  show ?case
    using Cons.IH [of "Suc i"] step by (auto simp: braceWrapped_iff)
qed

lemma isMatch_iff: "isMatch route endpoint \<longleftrightarrow> patternMatches route endpoint"
  by (simp add: isMatch_def patternMatches_def segments_def Let_def isMatch_loop_iff)

lemma matchRoute_none:
  "\<forall>(route, authType) \<in> set authMap. \<not> isMatch route endpoint \<Longrightarrow>
   matchRoute endpoint authMap = (AuthTypeUnknown, Some (ErrMatchNotFound endpoint))"
  by (induction authMap) auto

lemma matchRoute_unique:
  "(route, authType) \<in> set authMap \<Longrightarrow> isMatch route endpoint \<Longrightarrow>
   \<forall>(route', authType') \<in> set authMap.
      isMatch route' endpoint \<longrightarrow> (route', authType') = (route, authType) \<Longrightarrow>
   matchRoute endpoint authMap = (authType, None)"
proof (induction authMap)
  case Nil
  then show ?case by simp
next
  case (Cons entry authMap)
  obtain r a where entry: "entry = (r, a)" by (cases entry)
  show ?case
  proof (cases "isMatch r endpoint")
    case True
    with Cons.prems entry have "(r, a) = (route, authType)" by auto
    with True entry show ?thesis by simp
  next
    case False
    with Cons.prems entry have "(route, authType) \<in> set authMap" by auto
    with Cons False entry show ?thesis by auto
  qed
qed

subsection \<open>Facts about the rate limiter\<close>

lemma Atoi_Some_nonempty: "strconv_Atoi s = Some n \<Longrightarrow> s \<noteq> []"
  by (auto simp: strconv_Atoi_def)

lemma update_unfold:
  "strconv_Atoi (Header_Get (resHeader res) RateLimitHeader) = Some R \<Longrightarrow>
   updateRateLimitFromHeader dc res =
     (let effectiveLimit = (if MaxRequests (Config dc) > 0 then min (MaxRequests (Config dc)) R else R)
      in if effectiveLimit \<noteq> 0
         then dc\<lparr>rateLimiter := \<lparr>limit = rate_Every (quo time_Minute effectiveLimit), burst = effectiveLimit\<rparr>\<rparr>
         else dc)"
  by (frule Atoi_Some_nonempty)
     (simp add: updateRateLimitFromHeader_def Let_def SetBurst_def SetLimit_def)

lemma update_noop:
  "Header_Get (resHeader res) RateLimitHeader = [] \<or>
   strconv_Atoi (Header_Get (resHeader res) RateLimitHeader) = None \<or>
   strconv_Atoi (Header_Get (resHeader res) RateLimitHeader) = Some 0 \<Longrightarrow>
   updateRateLimitFromHeader dc res = dc"
  by (auto simp: updateRateLimitFromHeader_def Let_def)

lemma update_cases:
  "updateRateLimitFromHeader dc res = dc \<or>
   (\<exists>e. e \<noteq> 0 \<and> updateRateLimitFromHeader dc res =
        dc\<lparr>rateLimiter := \<lparr>limit = rate_Every (quo time_Minute e), burst = e\<rparr>\<rparr>)"
  by (auto simp: updateRateLimitFromHeader_def Let_def SetBurst_def SetLimit_def split: option.splits)

lemma update_burst_nonzero:
  "burst (rateLimiter dc) \<noteq> 0 \<Longrightarrow> burst (rateLimiter (updateRateLimitFromHeader dc res)) \<noteq> 0"
  using update_cases [of dc res] by auto

lemma update_Config: "Config (updateRateLimitFromHeader dc res) = Config dc"
  using update_cases [of dc res] by auto

lemma updateAll_burst_nonzero:
  "burst (rateLimiter dc) \<noteq> 0 \<Longrightarrow> burst (rateLimiter (updateAll dc rs)) \<noteq> 0"
  unfolding updateAll_def
  by (induction rs arbitrary: dc) (auto simp: update_burst_nonzero)

lemma updateAll_Config: "Config (updateAll dc rs) = Config dc"
  unfolding updateAll_def
  by (induction rs arbitrary: dc) (auto simp: update_Config)

lemma NewDiscogsClient_burst_pos: "0 < burst (rateLimiter (NewDiscogsClient config))"
  by (simp add: NewDiscogsClient_def Let_def rate_NewLimiter_def RateLimitAuth_def RateLimitUnauth_def)

lemma Canonical_RateLimitHeader: "CanonicalMIMEHeaderKey RateLimitHeader = RateLimitHeader"
  by (simp add: CanonicalMIMEHeaderKey_def RateLimitHeader_def validHeaderFieldByte_def Let_def)

lemma Header_Get_createMockResponse:
  "Header_Get (resHeader (createMockResponse n)) RateLimitHeader = strconv_FormatInt n"
  by (simp add: createMockResponse_def Header_Get_def Header_Set_def Canonical_RateLimitHeader)

subsection \<open>Facts about the pipeline\<close>

lemma Do_received:
  "Limiter_Wait env ctx (rateLimiter dc) = None \<Longrightarrow> Client_Do env req = Inr response \<Longrightarrow>
   Do env dc ctx req res =
     (let dc' = updateRateLimitFromHeader dc response
      in case resBody response of
           Inl e \<Rightarrow> \<lparr>err = Some (ErrReadBody e), client = dc', slot = res,
                     trace = [EvWait, EvTransport req]\<rparr>
         | Inr responseBody \<Rightarrow>
             if resStatusCode response < 200 \<or> resStatusCode response \<ge> 300
             then \<lparr>err = Some (ErrHTTP \<lparr>StatusCode = resStatusCode response, Message = responseBody\<rparr>),
                   client = dc', slot = res, trace = [EvWait, EvTransport req]\<rparr>
             else (case res of
                     Some v \<Rightarrow>
                       if length responseBody > 0
                       then (case json_Unmarshal env responseBody v of
                               (Some e, v') \<Rightarrow>
                                 \<lparr>err = Some (ErrUnmarshal e), client = dc', slot = Some v',
                                  trace = [EvWait, EvTransport req, EvUnmarshal responseBody]\<rparr>
                             | (None, v') \<Rightarrow>
                                 \<lparr>err = None, client = dc', slot = Some v',
                                  trace = [EvWait, EvTransport req, EvUnmarshal responseBody]\<rparr>)
                       else \<lparr>err = None, client = dc', slot = res, trace = [EvWait, EvTransport req]\<rparr>
                   | None \<Rightarrow> \<lparr>err = None, client = dc', slot = res, trace = [EvWait, EvTransport req]\<rparr>))"
  by (simp add: Do_def)

lemma fold_header_reqURL:
  "reqURL (fold (\<lambda>(headerKey, headerValue) r.
       r\<lparr>reqHeader := Header_Set (reqHeader r) headerKey headerValue\<rparr>) headers req0) = reqURL req0"
  by (induction headers arbitrary: req0) (auto split: prod.splits)

lemma request_prepared:
  "url_Parse env (Host dc @ endpoint) = Inr parsed \<Longrightarrow> encodeBody env body = Inr reqBody \<Longrightarrow>
   http_NewRequestWithContext env ctx method
     (URL_String env (parsed\<lparr>RawQuery := Values_Encode env (case params of None \<Rightarrow> [] | Some p \<Rightarrow> p)\<rparr>))
     reqBody = Inr req0 \<Longrightarrow>
   request env authMap dc ctx method endpoint params headers body res =
     (let req1 = fold (\<lambda>(headerKey, headerValue) r.
                         r\<lparr>reqHeader := Header_Set (reqHeader r) headerKey headerValue\<rparr>) headers req0
      in case matchRoute endpoint authMap of
           (authType, Some e) \<Rightarrow> abort dc res e
         | (authType, None) \<Rightarrow>
             (let req2 = req1\<lparr>reqHeader := Header_Set (reqHeader req1) UserAgentHeader (AppName (Config dc))\<rparr>
              in case addAuthHeaders dc req2 authType of
                   (Some e, req3) \<Rightarrow> abort dc res e
                 | (None, req3) \<Rightarrow> Do env dc ctx req3 res))"
  by (simp add: request_def Let_def)

lemma addAuthHeaders_KeySecret_missing:
  "ConsumerKey (Config dc) = None \<or> ConsumerSecret (Config dc) = None \<Longrightarrow>
   addAuthHeaders dc req AuthTypeKeySecret =
     (Some (ErrMissingCredentials AuthTypeKeySecret (Path (reqURL req))), req)"
  by (auto simp: addAuthHeaders_def AuthTypeKeySecret_def AuthTypeNone_def split: option.splits)

lemma request_KeySecret_missing_aborts:
  "matchRoute endpoint authMap = (AuthTypeKeySecret, None) \<Longrightarrow>
   ConsumerKey (Config dc) = None \<or> ConsumerSecret (Config dc) = None \<Longrightarrow>
   \<exists>e. request env authMap dc ctx method endpoint params headers body res = abort dc res e"
  by (simp add: request_def Let_def addAuthHeaders_KeySecret_missing split: sum.splits) blast

lemma matchRoute_error: "matchRoute endpoint authMap = (a, Some e) \<Longrightarrow> e = ErrMatchNotFound endpoint"
  by (induction authMap) (auto split: if_splits)

lemma addAuthHeaders_error:
  "addAuthHeaders dc req authType = (Some e, r) \<Longrightarrow> e = ErrMissingCredentials authType (Path (reqURL req))"
  by (auto simp: addAuthHeaders_def split: if_splits option.splits)

lemma Do_ErrHTTP:
  "err (Do env dc ctx req res) = Some (ErrHTTP h) \<Longrightarrow>
   \<exists>response body. Client_Do env req = Inr response \<and> resBody response = Inr body \<and>
      h = \<lparr>StatusCode = resStatusCode response, Message = body\<rparr>"
  by (auto simp: Do_def Let_def split: option.splits sum.splits if_splits prod.splits)

lemma request_ErrHTTP:
  "err (request env authMap dc ctx method endpoint params headers body res) = Some (ErrHTTP h) \<Longrightarrow>
   \<exists>req response body. Client_Do env req = Inr response \<and> resBody response = Inr body \<and>
      h = \<lparr>StatusCode = resStatusCode response, Message = body\<rparr>"
  by (auto simp: request_def Let_def abort_def split: sum.splits prod.splits option.splits
      dest!: matchRoute_error addAuthHeaders_error Do_ErrHTTP)

subsection \<open>Facts about the mock\<close>

lemma mockParse_path:
  "CHR ''?'' \<notin> set p \<Longrightarrow>
   mockParse (serverURL @ CHR ''/'' # p) =
     Inr \<lparr>Scheme = ''http'', Authority = ''127.0.0.1'', Path = CHR ''/'' # p, RawQuery = []\<rparr>"
proof -
  assume p: "CHR ''?'' \<notin> set p"
  have tw: "takeWhile (\<lambda>c. c \<noteq> CHR ''?'') p = p"
    using p by (auto simp: takeWhile_eq_all_conv)
  have dw: "dropWhile (\<lambda>c. c \<noteq> CHR ''?'') p = []"
    using p by (auto simp: dropWhile_eq_Nil_conv)
  show ?thesis
    by (simp add: mockParse_def HasPrefix_def serverURL_def tw dw)
qed

lemma mock_request_prepared:
  assumes p: "CHR ''?'' \<notin> set p" and q: "(case params of None \<Rightarrow> [] | Some v \<Rightarrow> v) = []"
  shows "request (mockEnv x) authMap (testClient config) (Some ()) method (CHR ''/'' # p) params [] None res =
     (case matchRoute (CHR ''/'' # p) authMap of
        (authType, Some e) \<Rightarrow> abort (testClient config) res e
      | (authType, None) \<Rightarrow>
          (case addAuthHeaders (testClient config)
                  ((mockRequest method (CHR ''/'' # p) None)
                     \<lparr>reqHeader := Header_Set Map.empty UserAgentHeader (AppName (Config (testClient config)))\<rparr>)
                  authType of
             (Some e, req3) \<Rightarrow> abort (testClient config) res e
           | (None, req3) \<Rightarrow> Do (mockEnv x) (testClient config) (Some ()) req3 res))"
proof -
  have host: "Host (testClient config) = serverURL"
    by (simp add: testClient_def)
  have u: "url_Parse (mockEnv x) (Host (testClient config) @ CHR ''/'' # p) =
      Inr \<lparr>Scheme = ''http'', Authority = ''127.0.0.1'', Path = CHR ''/'' # p, RawQuery = []\<rparr>"
    using mockParse_path [OF p] by (simp add: host mockEnv_def)
  have b: "encodeBody (mockEnv x) None = Inr None"
    by (simp add: encodeBody_def)
  have s: "URL_String (mockEnv x)
      (\<lparr>Scheme = ''http'', Authority = ''127.0.0.1'', Path = CHR ''/'' # p, RawQuery = []\<rparr>
         \<lparr>RawQuery := Values_Encode (mockEnv x) (case params of None \<Rightarrow> [] | Some v \<Rightarrow> v)\<rparr>)
      = serverURL @ CHR ''/'' # p"
    by (simp add: q mockEnv_def serverURL_def)
  have n: "http_NewRequestWithContext (mockEnv x) (Some ()) method
      (URL_String (mockEnv x)
        (\<lparr>Scheme = ''http'', Authority = ''127.0.0.1'', Path = CHR ''/'' # p, RawQuery = []\<rparr>
           \<lparr>RawQuery := Values_Encode (mockEnv x) (case params of None \<Rightarrow> [] | Some v \<Rightarrow> v)\<rparr>)) None
      = Inr (mockRequest method (CHR ''/'' # p) None)"
    unfolding s using mockParse_path [OF p] by (simp add: mockEnv_def mockRequest_def)
  show ?thesis
    by (simp add: request_prepared [OF u b n] Let_def mockRequest_def)
qed

lemma matchRoute_search: "matchRoute ''/database/search'' EndpointAuthMap = (AuthTypeKeySecret, None)"
  by (simp add: EndpointAuthMap_def isMatch_def Let_def Split.simps HasPrefix_def HasSuffix_def)

lemma matchRoute_release_2: "matchRoute ''/releases/2'' EndpointAuthMap = (AuthTypeNone, None)"
  by (simp add: EndpointAuthMap_def isMatch_def Let_def Split.simps HasPrefix_def HasSuffix_def)

lemma mock_Wait: "Limiter_Wait (mockEnv x) ctx lim = None"
  by (simp add: mockEnv_def)

lemma mock_Client_Do: "Client_Do (mockEnv x) req = x"
  by (simp add: mockEnv_def)

lemma mock_Unmarshal_ok: "json_Unmarshal (mockEnv x) releaseBody v = (None, releaseBody)"
  by (simp add: mockEnv_def releaseBody_def HasPrefix_def HasSuffix_def)

lemma mock_Unmarshal_bad: "json_Unmarshal (mockEnv x) ''<html>'' v = (Some ''invalid character'', v)"
  by (simp add: mockEnv_def HasPrefix_def HasSuffix_def)

section \<open>The claims\<close>

text \<open>
  C1. A route pattern matches an endpoint path exactly when both have the same number of
  segments between slashes and every pattern segment that is not wrapped in braces equals
  the path segment at its position. Hence \<open>matchRoute\<close>, in whatever order it visits
  the table, returns the auth class of the entry when the path matches exactly one entry
  of the table, and returns the class \<open>unknown\<close> with the no-route-matched error for
  the path when every pattern differs from the path in its number of segments or in a
  segment that is not wrapped in braces.
\<close>

theorem isMatch_matchRoute_spec:
  "(isMatch route endpoint \<longleftrightarrow>
      length (segments route) = length (segments endpoint) \<and>
      (\<forall>i < length (segments route).
         \<not> braceWrapped (segments route ! i) \<longrightarrow> segments route ! i = segments endpoint ! i))
   \<and> ((route, authType) \<in> set authMap \<and> patternMatches route endpoint \<and>
        (\<forall>(route', authType') \<in> set authMap.
           patternMatches route' endpoint \<longrightarrow> (route', authType') = (route, authType))
        \<longrightarrow> matchRoute endpoint authMap = (authType, None))
   \<and> ((\<forall>(route', authType') \<in> set authMap.
          length (segments route') \<noteq> length (segments endpoint) \<or>
          (\<exists>i < length (segments route').
             \<not> braceWrapped (segments route' ! i) \<and> segments route' ! i \<noteq> segments endpoint ! i))
        \<longrightarrow> matchRoute endpoint authMap = (AuthTypeUnknown, Some (ErrMatchNotFound endpoint)))"
proof (intro conjI impI)
  show "isMatch route endpoint \<longleftrightarrow>
      length (segments route) = length (segments endpoint) \<and>
      (\<forall>i < length (segments route).
         \<not> braceWrapped (segments route ! i) \<longrightarrow> segments route ! i = segments endpoint ! i)"
    using isMatch_iff [of route endpoint] by (simp add: patternMatches_def)
next
  assume h: "(route, authType) \<in> set authMap \<and> patternMatches route endpoint \<and>
        (\<forall>(route', authType') \<in> set authMap.
           patternMatches route' endpoint \<longrightarrow> (route', authType') = (route, authType))"
  then show "matchRoute endpoint authMap = (authType, None)"
    by (intro matchRoute_unique) (auto simp: isMatch_iff)
next
  assume h: "\<forall>(route', authType') \<in> set authMap.
          length (segments route') \<noteq> length (segments endpoint) \<or>
          (\<exists>i < length (segments route').
             \<not> braceWrapped (segments route' ! i) \<and> segments route' ! i \<noteq> segments endpoint ! i)"
  have "\<forall>(route', authType') \<in> set authMap. \<not> isMatch route' endpoint"
    using h unfolding isMatch_iff patternMatches_def by fastforce
  then show "matchRoute endpoint authMap = (AuthTypeUnknown, Some (ErrMatchNotFound endpoint))"
    by (rule matchRoute_none)
qed

theorem isMatch_matchRoute_spec_witness:
  "isMatch ''/param/{id}'' ''/param/1234'' \<and>
   \<not> isMatch ''/no/match'' ''/match'' \<and>
   matchRoute (''/releases/'' @ strconv_FormatInt 2) EndpointAuthMap = (AuthTypeNone, None) \<and>
   matchRoute ''/not/found'' EndpointAuthMap = (AuthTypeUnknown, Some (ErrMatchNotFound ''/not/found''))"
proof -
  have s1: "segments ''/param/{id}'' = [[], ''param'', ''{id}'']"
    and s2: "segments ''/param/1234'' = [[], ''param'', ''1234'']"
    and s3: "segments ''/no/match'' = [[], ''no'', ''match'']"
    and s4: "segments ''/match'' = [[], ''match'']"
    and s5: "segments ''/test'' = [[], ''test'']"
    and s6: "segments ''/releases/{release_id}'' = [[], ''releases'', ''{release_id}'']"
    and s7: "segments ''/database/search'' = [[], ''database'', ''search'']"
    and s8: "segments ''/releases/2'' = [[], ''releases'', ''2'']"
    and s9: "segments ''/not/found'' = [[], ''not'', ''found'']"
    by (simp_all add: segments_def Split.simps)
  have f: "strconv_FormatInt 2 = ''2''"
    by (simp add: strconv_FormatInt_def)
  have len: "length (segments ''/param/{id}'') = length (segments ''/param/1234'')"
    by (simp add: s1 s2)
  have lit: "\<forall>i < length (segments ''/param/{id}'').
      \<not> braceWrapped (segments ''/param/{id}'' ! i) \<longrightarrow>
      segments ''/param/{id}'' ! i = segments ''/param/1234'' ! i"
    by (simp add: s1 s2 braceWrapped_def All_less_Suc)
  have a: "isMatch ''/param/{id}'' ''/param/1234''"
    using isMatch_matchRoute_spec [THEN conjunct1, of "''/param/{id}''" "''/param/1234''"] len lit
    by blast
  have nlen: "length (segments ''/no/match'') \<noteq> length (segments ''/match'')"
    by (simp add: s3 s4)
  have b: "\<not> isMatch ''/no/match'' ''/match''"
    using isMatch_matchRoute_spec [THEN conjunct1, of "''/no/match''" "''/match''"] nlen
    by blast
  have mem: "(''/releases/{release_id}'', AuthTypeNone) \<in> set EndpointAuthMap"
    by (simp add: EndpointAuthMap_def)
  have m: "patternMatches ''/releases/{release_id}'' ''/releases/2''"
    by (simp add: patternMatches_def s6 s8 braceWrapped_def All_less_Suc)
  have n1: "\<not> patternMatches ''/test'' ''/releases/2''"
    by (simp add: patternMatches_def s5 s8)
  have n2: "\<not> patternMatches ''/database/search'' ''/releases/2''"
    by (simp add: patternMatches_def s7 s8 braceWrapped_def All_less_Suc)
  have u: "\<forall>(route', authType') \<in> set EndpointAuthMap.
      patternMatches route' ''/releases/2'' \<longrightarrow> (route', authType') = (''/releases/{release_id}'', AuthTypeNone)"
    by (simp add: EndpointAuthMap_def n1 n2)
  have c: "matchRoute ''/releases/2'' EndpointAuthMap = (AuthTypeNone, None)"
    using isMatch_matchRoute_spec [THEN conjunct2, THEN conjunct1,
        of "''/releases/{release_id}''" AuthTypeNone EndpointAuthMap "''/releases/2''"] mem m u
    by blast
  have dall: "\<forall>(route', authType') \<in> set EndpointAuthMap.
      length (segments route') \<noteq> length (segments ''/not/found'') \<or>
      (\<exists>i < length (segments route').
         \<not> braceWrapped (segments route' ! i) \<and> segments route' ! i \<noteq> segments ''/not/found'' ! i)"
    by (simp add: EndpointAuthMap_def s5 s6 s7 s9 braceWrapped_def Ex_less_Suc)
  have d: "matchRoute ''/not/found'' EndpointAuthMap = (AuthTypeUnknown, Some (ErrMatchNotFound ''/not/found''))"
    using isMatch_matchRoute_spec [THEN conjunct2, THEN conjunct2, of EndpointAuthMap "''/not/found''"] dall
    by blast
  from a b c d f show ?thesis by simp
qed




text \<open>
  C3. A response whose rate-limit header is absent, is not the text of an integer, or
  holds the integer 0 leaves the client as it was: the limiter's rate, its burst and the
  configured \<open>MaxRequests\<close>. The effective limit, which an update stores as the burst
  and divides the minute by, is never zero: a burst other than zero stays other than zero
  through every sequence of responses, that of a new client is other than zero, and each
  single update either changes nothing or stores an effective limit other than zero; the
  configured \<open>MaxRequests\<close> is never changed by a response.
\<close>

theorem updateRateLimitFromHeader_zero_ignored:
  "(resHeader res RateLimitHeader = None \<longrightarrow> updateRateLimitFromHeader dc res = dc)
   \<and> (strconv_Atoi (Header_Get (resHeader res) RateLimitHeader) = None \<longrightarrow>
        updateRateLimitFromHeader dc res = dc)
   \<and> (strconv_Atoi (Header_Get (resHeader res) RateLimitHeader) = Some 0 \<longrightarrow>
        updateRateLimitFromHeader dc res = dc)
   \<and> (burst (rateLimiter dc) \<noteq> 0 \<longrightarrow> burst (rateLimiter (updateAll dc rs)) \<noteq> 0)
   \<and> burst (rateLimiter (updateAll (NewDiscogsClient config) rs)) \<noteq> 0
   \<and> MaxRequests (Config (updateAll dc rs)) = MaxRequests (Config dc)
   \<and> (updateRateLimitFromHeader dc res = dc \<or>
        (\<exists>e. e \<noteq> 0 \<and> updateRateLimitFromHeader dc res =
              dc\<lparr>rateLimiter := \<lparr>limit = rate_Every (quo time_Minute e), burst = e\<rparr>\<rparr>))"
proof (intro conjI impI)
  assume "resHeader res RateLimitHeader = None"
  then have "Header_Get (resHeader res) RateLimitHeader = []"
    by (simp add: Header_Get_def CanonicalMIMEHeaderKey_def RateLimitHeader_def
        validHeaderFieldByte_def Let_def)
  then show "updateRateLimitFromHeader dc res = dc" by (simp add: update_noop)
next
  assume "strconv_Atoi (Header_Get (resHeader res) RateLimitHeader) = None"
  then show "updateRateLimitFromHeader dc res = dc" by (simp add: update_noop)
next
  assume "strconv_Atoi (Header_Get (resHeader res) RateLimitHeader) = Some 0"
  then show "updateRateLimitFromHeader dc res = dc" by (simp add: update_noop)
next
  assume "burst (rateLimiter dc) \<noteq> 0"
  then show "burst (rateLimiter (updateAll dc rs)) \<noteq> 0" by (rule updateAll_burst_nonzero)
next
  have "burst (rateLimiter (NewDiscogsClient config)) \<noteq> 0"
    using NewDiscogsClient_burst_pos [of config] by simp
  then show "burst (rateLimiter (updateAll (NewDiscogsClient config) rs)) \<noteq> 0"
    by (rule updateAll_burst_nonzero)
next
  show "MaxRequests (Config (updateAll dc rs)) = MaxRequests (Config dc)"
    by (simp add: updateAll_Config)
next
  show "updateRateLimitFromHeader dc res = dc \<or>
        (\<exists>e. e \<noteq> 0 \<and> updateRateLimitFromHeader dc res =
              dc\<lparr>rateLimiter := \<lparr>limit = rate_Every (quo time_Minute e), burst = e\<rparr>\<rparr>)"
    by (rule update_cases)
qed

theorem updateRateLimitFromHeader_zero_ignored_witness:
  "updateRateLimitFromHeader (NewDiscogsClient (emptyConfig\<lparr>MaxRequests := 20\<rparr>))
       (createMockResponse 0) = NewDiscogsClient (emptyConfig\<lparr>MaxRequests := 20\<rparr>) \<and>
   updateRateLimitFromHeader (NewDiscogsClient emptyConfig)
       \<lparr>resStatusCode = 200, resHeader = Map.empty, resBody = Inr []\<rparr> = NewDiscogsClient emptyConfig \<and>
   updateRateLimitFromHeader (NewDiscogsClient emptyConfig)
       \<lparr>resStatusCode = 200, resHeader = Header_Set Map.empty RateLimitHeader ''abc'', resBody = Inr []\<rparr>
     = NewDiscogsClient emptyConfig \<and>
   burst (rateLimiter (NewDiscogsClient emptyConfig)) \<noteq> 0 \<and>
   burst (rateLimiter (updateAll (NewDiscogsClient emptyConfig)
            [createMockResponse 0, createMockResponse 60, createMockResponse 0])) \<noteq> 0"
proof -
  have f0: "strconv_FormatInt 0 = ''0''"
    by (simp add: strconv_FormatInt_def)
  have a0: "strconv_Atoi ''0'' = Some 0" and ax: "strconv_Atoi ''abc'' = None"
    by (simp_all add: strconv_Atoi_def isDigit_def digitsValue_def Let_def)
  have h0: "strconv_Atoi (Header_Get (resHeader (createMockResponse 0)) RateLimitHeader) = Some 0"
    by (simp add: Header_Get_createMockResponse f0 a0)
  have hx: "strconv_Atoi (Header_Get (resHeader
        \<lparr>resStatusCode = 200, resHeader = Header_Set Map.empty RateLimitHeader ''abc'', resBody = Inr []\<rparr>)
        RateLimitHeader) = None"
    by (simp add: Header_Get_def Header_Set_def Canonical_RateLimitHeader ax)
  have hn: "resHeader \<lparr>resStatusCode = 200, resHeader = Map.empty, resBody = Inr []\<rparr> RateLimitHeader = None"
    by simp
  have b: "burst (rateLimiter (NewDiscogsClient emptyConfig)) \<noteq> 0"
    by (simp add: NewDiscogsClient_def emptyConfig_def Let_def rate_NewLimiter_def RateLimitUnauth_def)
  note t = updateRateLimitFromHeader_zero_ignored
  have w1: "updateRateLimitFromHeader (NewDiscogsClient (emptyConfig\<lparr>MaxRequests := 20\<rparr>))
       (createMockResponse 0) = NewDiscogsClient (emptyConfig\<lparr>MaxRequests := 20\<rparr>)"
    using t [THEN conjunct2, THEN conjunct2, THEN conjunct1, of "createMockResponse 0"] h0 by blast
  have w2: "updateRateLimitFromHeader (NewDiscogsClient emptyConfig)
       \<lparr>resStatusCode = 200, resHeader = Map.empty, resBody = Inr []\<rparr> = NewDiscogsClient emptyConfig"
    using t [THEN conjunct1] hn by blast
  have w3: "updateRateLimitFromHeader (NewDiscogsClient emptyConfig)
       \<lparr>resStatusCode = 200, resHeader = Header_Set Map.empty RateLimitHeader ''abc'', resBody = Inr []\<rparr>
     = NewDiscogsClient emptyConfig"
    using t [THEN conjunct2, THEN conjunct1] hx by blast
  have w4: "burst (rateLimiter (updateAll (NewDiscogsClient emptyConfig)
            [createMockResponse 0, createMockResponse 60, createMockResponse 0])) \<noteq> 0"
    using t [THEN conjunct2, THEN conjunct2, THEN conjunct2, THEN conjunct1] b by blast
  from w1 w2 w3 w4 b show ?thesis by blast
qed

text \<open>
  C4 (as amended). A request to an endpoint whose auth class resolves to \<open>key-secret\<close>,
  on a configuration in which the consumer key or the consumer secret is absent, never
  acquires a limiter token and never reaches the transport, leaves the client as it was
  and returns an error. When the address parses, the payload serialises and the request
  is constructed, that error is the missing-credentials error naming the class
  \<open>key-secret\<close> and the path of the request's URL.
\<close>

theorem request_missing_credentials:
  "matchRoute endpoint authMap = (AuthTypeKeySecret, None) \<and>
   (ConsumerKey (Config dc) = None \<or> ConsumerSecret (Config dc) = None) \<longrightarrow>
     trace (request env authMap dc ctx method endpoint params headers body res) = [] \<and>
     client (request env authMap dc ctx method endpoint params headers body res) = dc \<and>
     err (request env authMap dc ctx method endpoint params headers body res) \<noteq> None \<and>
     (\<forall>parsed reqBody req0.
        url_Parse env (Host dc @ endpoint) = Inr parsed \<and>
        encodeBody env body = Inr reqBody \<and>
        http_NewRequestWithContext env ctx method
          (URL_String env (parsed\<lparr>RawQuery := Values_Encode env (case params of None \<Rightarrow> [] | Some p \<Rightarrow> p)\<rparr>))
          reqBody = Inr req0 \<longrightarrow>
        err (request env authMap dc ctx method endpoint params headers body res) =
          Some (ErrMissingCredentials AuthTypeKeySecret (Path (reqURL req0))))"
proof (intro impI)
  let ?r = "request env authMap dc ctx method endpoint params headers body res"
  assume h: "matchRoute endpoint authMap = (AuthTypeKeySecret, None) \<and>
    (ConsumerKey (Config dc) = None \<or> ConsumerSecret (Config dc) = None)"
  then have m: "matchRoute endpoint authMap = (AuthTypeKeySecret, None)"
    and k: "ConsumerKey (Config dc) = None \<or> ConsumerSecret (Config dc) = None" by auto
  have ab: "\<exists>e. ?r = abort dc res e"
    using m k by (rule request_KeySecret_missing_aborts)
  then obtain e where e: "?r = abort dc res e" ..
  have full: "err ?r = Some (ErrMissingCredentials AuthTypeKeySecret (Path (reqURL req0)))"
    if "url_Parse env (Host dc @ endpoint) = Inr parsed" "encodeBody env body = Inr reqBody"
      "http_NewRequestWithContext env ctx method
          (URL_String env (parsed\<lparr>RawQuery := Values_Encode env (case params of None \<Rightarrow> [] | Some p \<Rightarrow> p)\<rparr>))
          reqBody = Inr req0"
    for parsed reqBody req0
    using that
    by (simp add: request_prepared m Let_def addAuthHeaders_KeySecret_missing [OF k] abort_def
        fold_header_reqURL)
  from e full show "trace ?r = [] \<and> client ?r = dc \<and> err ?r \<noteq> None \<and>
     (\<forall>parsed reqBody req0.
        url_Parse env (Host dc @ endpoint) = Inr parsed \<and>
        encodeBody env body = Inr reqBody \<and>
        http_NewRequestWithContext env ctx method
          (URL_String env (parsed\<lparr>RawQuery := Values_Encode env (case params of None \<Rightarrow> [] | Some p \<Rightarrow> p)\<rparr>))
          reqBody = Inr req0 \<longrightarrow>
        err ?r = Some (ErrMissingCredentials AuthTypeKeySecret (Path (reqURL req0))))"
    by (simp add: abort_def)
qed

theorem request_missing_credentials_witness:
  "matchRoute ''/database/search'' EndpointAuthMap = (AuthTypeKeySecret, None) \<and>
   ConsumerKey (Config (testClient emptyConfig)) = None \<and>
   err (Get (mockServer 200 releaseBody) EndpointAuthMap (testClient emptyConfig) (Some ())
          ''/database/search'' None [] (Some [])) =
     Some (ErrMissingCredentials AuthTypeKeySecret ''/database/search'') \<and>
   trace (Get (mockServer 200 releaseBody) EndpointAuthMap (testClient emptyConfig) (Some ())
          ''/database/search'' None [] (Some [])) = []"
proof -
  let ?env = "mockServer 200 releaseBody :: (payload, string, unit, unit option) env"
  let ?dc = "testClient emptyConfig"
  let ?u = "\<lparr>Scheme = ''http'', Authority = ''127.0.0.1'', Path = ''/database/search'', RawQuery = []\<rparr>"
  have k: "ConsumerKey (Config ?dc) = None"
    by (simp add: testClient_def NewDiscogsClient_def emptyConfig_def Let_def)
  have host: "Host ?dc = serverURL"
    by (simp add: testClient_def)
  have p: "url_Parse ?env (Host ?dc @ ''/database/search'') = Inr ?u"
    using mockParse_path [of "''database/search''"] by (simp add: host mockServer_def mockEnv_def)
  have b: "encodeBody ?env None = Inr None"
    by (simp add: encodeBody_def)
  have n: "http_NewRequestWithContext ?env (Some ()) ''GET''
      (URL_String ?env (?u\<lparr>RawQuery := Values_Encode ?env (case None of None \<Rightarrow> [] | Some p \<Rightarrow> p)\<rparr>)) None
      = Inr (mockRequest ''GET'' ''/database/search'' None)"
    using mockParse_path [of "''database/search''"]
    by (simp add: mockServer_def mockEnv_def mockRequest_def serverURL_def)
  have path: "Path (reqURL (mockRequest ''GET'' ''/database/search'' None)) = ''/database/search''"
    by (simp add: mockRequest_def)
  note t = request_missing_credentials [of "''/database/search''" EndpointAuthMap ?dc ?env
      "Some ()" "''GET''" None "[]" None "Some []", rule_format]
  have pre: "matchRoute ''/database/search'' EndpointAuthMap = (AuthTypeKeySecret, None) \<and>
      (ConsumerKey (Config ?dc) = None \<or> ConsumerSecret (Config ?dc) = None)"
    using matchRoute_search k by simp
  have tr: "trace (request ?env EndpointAuthMap ?dc (Some ()) ''GET'' ''/database/search'' None [] None (Some [])) = []"
    using t [OF pre] by simp
  have er: "err (request ?env EndpointAuthMap ?dc (Some ()) ''GET'' ''/database/search'' None [] None (Some [])) =
      Some (ErrMissingCredentials AuthTypeKeySecret ''/database/search'')"
    using t [OF pre, THEN conjunct2, THEN conjunct2, THEN conjunct2, rule_format, OF conjI [OF p conjI [OF b n]]]
    by (simp add: path)
  from tr er k matchRoute_search show ?thesis
    by (simp add: Get_def)
qed

text \<open>
  C4 as stated fails where an earlier step of the pipeline fails: a POST to the search
  endpoint without credentials, with a payload that \<open>json.Marshal\<close> rejects, returns
  the serialisation error and not the missing-credentials error.
\<close>

theorem request_missing_credentials_counterexample:
  "matchRoute ''/database/search'' EndpointAuthMap = (AuthTypeKeySecret, None) \<and>
   ConsumerKey (Config (testClient emptyConfig)) = None \<and>
   ConsumerSecret (Config (testClient emptyConfig)) = None \<and>
   err (Post (mockServer 200 releaseBody) EndpointAuthMap (testClient emptyConfig) (Some ())
          ''/database/search'' None [] (Some NaN) (Some [])) =
     Some (ErrJSONMarshal ''json: unsupported value: NaN'')"
proof -
  let ?env = "mockServer 200 releaseBody :: (payload, string, unit, unit option) env"
  let ?dc = "testClient emptyConfig"
  have k: "ConsumerKey (Config ?dc) = None" "ConsumerSecret (Config ?dc) = None"
    by (simp_all add: testClient_def NewDiscogsClient_def emptyConfig_def Let_def)
  have host: "Host ?dc = serverURL"
    by (simp add: testClient_def)
  have p: "url_Parse ?env (Host ?dc @ ''/database/search'') =
      Inr \<lparr>Scheme = ''http'', Authority = ''127.0.0.1'', Path = ''/database/search'', RawQuery = []\<rparr>"
    using mockParse_path [of "''database/search''"] by (simp add: host mockServer_def mockEnv_def)
  have b: "encodeBody ?env (Some NaN) = Inl ''json: unsupported value: NaN''"
    by (simp add: encodeBody_def mockServer_def mockEnv_def)
  have "err (request ?env EndpointAuthMap ?dc (Some ()) ''POST'' ''/database/search'' None [] (Some NaN) (Some []))
      = Some (ErrJSONMarshal ''json: unsupported value: NaN'')"
    by (simp add: request_def p b Let_def abort_def)
  with k matchRoute_search show ?thesis
    by (simp add: Post_def)
qed

text \<open>
  C5 (as amended). For a response whose status code is below 200 or above 299, \<open>Do\<close>
  leaves the output slot as it was and decodes nothing. When the body of the response
  reads as the text \<open>body\<close>, \<open>Do\<close> returns the \<open>HTTPError\<close> with the status code
  of the response and with \<open>body\<close> as its message; when reading the body fails, \<open>Do\<close>
  returns the read error, wrapped.
\<close>

theorem Do_non2xx_HTTPError:
  "Limiter_Wait env ctx (rateLimiter dc) = None \<and> Client_Do env req = Inr response \<and>
   (resStatusCode response < 200 \<or> 299 < resStatusCode response) \<longrightarrow>
     slot (Do env dc ctx req res) = res \<and>
     (\<forall>b. EvUnmarshal b \<notin> set (trace (Do env dc ctx req res))) \<and>
     (\<forall>body. resBody response = Inr body \<longrightarrow>
        err (Do env dc ctx req res) =
          Some (ErrHTTP \<lparr>StatusCode = resStatusCode response, Message = body\<rparr>)) \<and>
     (\<forall>readErr. resBody response = Inl readErr \<longrightarrow>
        err (Do env dc ctx req res) = Some (ErrReadBody readErr))"
proof (rule impI)
  let ?dc' = "updateRateLimitFromHeader dc response"
  assume h: "Limiter_Wait env ctx (rateLimiter dc) = None \<and> Client_Do env req = Inr response \<and>
    (resStatusCode response < 200 \<or> 299 < resStatusCode response)"
  then have status: "resStatusCode response < 200 \<or> resStatusCode response \<ge> 300"
    by auto
  show "slot (Do env dc ctx req res) = res \<and>
     (\<forall>b. EvUnmarshal b \<notin> set (trace (Do env dc ctx req res))) \<and>
     (\<forall>body. resBody response = Inr body \<longrightarrow>
        err (Do env dc ctx req res) =
          Some (ErrHTTP \<lparr>StatusCode = resStatusCode response, Message = body\<rparr>)) \<and>
     (\<forall>readErr. resBody response = Inl readErr \<longrightarrow>
        err (Do env dc ctx req res) = Some (ErrReadBody readErr))"
  proof (cases "resBody response")
    case (Inl readErr)
    with h have "Do env dc ctx req res =
        \<lparr>err = Some (ErrReadBody readErr), client = ?dc', slot = res,
         trace = [EvWait, EvTransport req]\<rparr>"
      by (simp add: Do_received Let_def)
    with Inl show ?thesis by simp
  next
    case (Inr body)
    with h status have "Do env dc ctx req res =
        \<lparr>err = Some (ErrHTTP \<lparr>StatusCode = resStatusCode response, Message = body\<rparr>),
         client = ?dc', slot = res, trace = [EvWait, EvTransport req]\<rparr>"
      by (simp add: Do_received Let_def)
    with Inr show ?thesis by simp
  qed
qed

theorem Do_non2xx_HTTPError_witness:
  "err (Do (mockServer 500 serverErrorBody) (testClient emptyConfig) (Some ())
          (mockRequest ''GET'' ''/test'' None) (Some [])) =
     Some (ErrHTTP \<lparr>StatusCode = 500, Message = serverErrorBody\<rparr>) \<and>
   slot (Do (mockServer 500 serverErrorBody) (testClient emptyConfig) (Some ())
          (mockRequest ''GET'' ''/test'' None) (Some [])) = Some [] \<and>
   err (Do (mockServer 199 serverErrorBody) (testClient emptyConfig) (Some ())
          (mockRequest ''GET'' ''/test'' None) (Some [])) =
     Some (ErrHTTP \<lparr>StatusCode = 199, Message = serverErrorBody\<rparr>) \<and>
   err (Do (mockServer 300 []) (testClient emptyConfig) (Some ())
          (mockRequest ''GET'' ''/test'' None) (Some [])) =
     Some (ErrHTTP \<lparr>StatusCode = 300, Message = []\<rparr>) \<and>
   err (Do (mockEnv (Inr \<lparr>resStatusCode = 500, resHeader = Map.empty, resBody = Inl ''unexpected EOF''\<rparr>))
          (testClient emptyConfig) (Some ()) (mockRequest ''GET'' ''/test'' None) (Some [])) =
     Some (ErrReadBody ''unexpected EOF'')"
  using Do_non2xx_HTTPError [where env = "mockServer 500 serverErrorBody" and ctx = "Some ()"
      and dc = "testClient emptyConfig" and req = "mockRequest ''GET'' ''/test'' None"
      and response = "\<lparr>resStatusCode = 500, resHeader = Map.empty, resBody = Inr serverErrorBody\<rparr>"
      and res = "Some []"]
    Do_non2xx_HTTPError [where env = "mockServer 199 serverErrorBody" and ctx = "Some ()"
      and dc = "testClient emptyConfig" and req = "mockRequest ''GET'' ''/test'' None"
      and response = "\<lparr>resStatusCode = 199, resHeader = Map.empty, resBody = Inr serverErrorBody\<rparr>"
      and res = "Some []"]
    Do_non2xx_HTTPError [where env = "mockServer 300 []" and ctx = "Some ()"
      and dc = "testClient emptyConfig" and req = "mockRequest ''GET'' ''/test'' None"
      and response = "\<lparr>resStatusCode = 300, resHeader = Map.empty, resBody = Inr []\<rparr>"
      and res = "Some []"]
    Do_non2xx_HTTPError [where env = "mockEnv (Inr \<lparr>resStatusCode = 500, resHeader = Map.empty,
          resBody = Inl ''unexpected EOF''\<rparr>)" and ctx = "Some ()"
      and dc = "testClient emptyConfig" and req = "mockRequest ''GET'' ''/test'' None"
      and response = "\<lparr>resStatusCode = 500, resHeader = Map.empty, resBody = Inl ''unexpected EOF''\<rparr>"
      and res = "Some []"]
  by (simp add: mockServer_def mock_Wait mock_Client_Do)

text \<open>
  C5 as stated fails where the body cannot be read: for a response with status code 500
  whose body read fails, \<open>Do\<close> returns the wrapped read error, which is not an
  \<open>HTTPError\<close>.
\<close>

theorem Do_non2xx_HTTPError_counterexample:
  "Client_Do (mockEnv (Inr \<lparr>resStatusCode = 500, resHeader = Map.empty, resBody = Inl ''unexpected EOF''\<rparr>))
       (mockRequest ''GET'' ''/test'' None) =
     Inr \<lparr>resStatusCode = 500, resHeader = Map.empty, resBody = Inl ''unexpected EOF''\<rparr> \<and>
   err (Do (mockEnv (Inr \<lparr>resStatusCode = 500, resHeader = Map.empty, resBody = Inl ''unexpected EOF''\<rparr>))
          (testClient emptyConfig) (Some ()) (mockRequest ''GET'' ''/test'' None) (Some [])) =
     Some (ErrReadBody ''unexpected EOF'')"
  by (simp add: Do_received mock_Wait mock_Client_Do Let_def)

text \<open>
  C6 (as amended). For a response with a status code from 200 to 299 whose body reads as
  a text that is not empty, \<open>Do\<close> with an output slot decodes the body into the slot;
  it returns no error when the decoding succeeds, and when the decoding fails it returns
  the malformed-response error wrapping the decoder's, which is not an \<open>HTTPError\<close>.
  When the body reads as the empty text, or there is no output slot and the body reads,
  \<open>Do\<close> returns no error, decodes nothing and leaves the slot as it was. When reading
  the body fails, \<open>Do\<close> returns the read error, wrapped, decodes nothing and leaves the
  slot as it was.
\<close>

theorem Do_2xx_decode:
  "(Limiter_Wait env ctx (rateLimiter dc) = None \<and> Client_Do env req = Inr response \<and>
    resBody response = Inr body \<and>
    200 \<le> resStatusCode response \<and> resStatusCode response \<le> 299 \<and> body \<noteq> [] \<longrightarrow>
      slot (Do env dc ctx req (Some v)) = Some (snd (json_Unmarshal env body v)) \<and>
      EvUnmarshal body \<in> set (trace (Do env dc ctx req (Some v))) \<and>
      (fst (json_Unmarshal env body v) = None \<longrightarrow> err (Do env dc ctx req (Some v)) = None) \<and>
      (\<forall>e. fst (json_Unmarshal env body v) = Some e \<longrightarrow>
            err (Do env dc ctx req (Some v)) = Some (ErrUnmarshal e) \<and>
            (\<forall>h. err (Do env dc ctx req (Some v)) \<noteq> Some (ErrHTTP h))))
   \<and> (Limiter_Wait env ctx (rateLimiter dc) = None \<and> Client_Do env req = Inr response \<and>
       resBody response = Inr body \<and>
       200 \<le> resStatusCode response \<and> resStatusCode response \<le> 299 \<and>
       (body = [] \<or> res = None) \<longrightarrow>
         err (Do env dc ctx req res) = None \<and>
         slot (Do env dc ctx req res) = res \<and>
         (\<forall>b. EvUnmarshal b \<notin> set (trace (Do env dc ctx req res))))
   \<and> (Limiter_Wait env ctx (rateLimiter dc) = None \<and> Client_Do env req = Inr response \<and>
       resBody response = Inl readErr \<and>
       200 \<le> resStatusCode response \<and> resStatusCode response \<le> 299 \<longrightarrow>
         err (Do env dc ctx req res) = Some (ErrReadBody readErr) \<and>
         slot (Do env dc ctx req res) = res \<and>
         (\<forall>b. EvUnmarshal b \<notin> set (trace (Do env dc ctx req res))))"
proof (rule conjI; (rule conjI)?; rule impI)
  let ?dc' = "updateRateLimitFromHeader dc response"
  assume h: "Limiter_Wait env ctx (rateLimiter dc) = None \<and> Client_Do env req = Inr response \<and>
    resBody response = Inr body \<and>
    200 \<le> resStatusCode response \<and> resStatusCode response \<le> 299 \<and> body \<noteq> []"
  obtain e v' where u: "json_Unmarshal env body v = (e, v')"
    by (cases "json_Unmarshal env body v")
  from h u have d: "Do env dc ctx req (Some v) =
      \<lparr>err = (case e of None \<Rightarrow> None | Some x \<Rightarrow> Some (ErrUnmarshal x)), client = ?dc',
       slot = Some v', trace = [EvWait, EvTransport req, EvUnmarshal body]\<rparr>"
    by (cases e) (simp_all add: Do_received Let_def)
  show "slot (Do env dc ctx req (Some v)) = Some (snd (json_Unmarshal env body v)) \<and>
      EvUnmarshal body \<in> set (trace (Do env dc ctx req (Some v))) \<and>
      (fst (json_Unmarshal env body v) = None \<longrightarrow> err (Do env dc ctx req (Some v)) = None) \<and>
      (\<forall>e. fst (json_Unmarshal env body v) = Some e \<longrightarrow>
            err (Do env dc ctx req (Some v)) = Some (ErrUnmarshal e) \<and>
            (\<forall>h. err (Do env dc ctx req (Some v)) \<noteq> Some (ErrHTTP h)))"
    unfolding d u by simp
next
  assume h: "Limiter_Wait env ctx (rateLimiter dc) = None \<and> Client_Do env req = Inr response \<and>
    resBody response = Inr body \<and>
    200 \<le> resStatusCode response \<and> resStatusCode response \<le> 299 \<and>
    (body = [] \<or> res = None)"
  then have "Do env dc ctx req res =
      \<lparr>err = None, client = updateRateLimitFromHeader dc response, slot = res,
       trace = [EvWait, EvTransport req]\<rparr>"
    by (auto simp: Do_received Let_def split: option.splits)
  then show "err (Do env dc ctx req res) = None \<and>
         slot (Do env dc ctx req res) = res \<and>
         (\<forall>b. EvUnmarshal b \<notin> set (trace (Do env dc ctx req res)))"
    by simp
next
  assume h: "Limiter_Wait env ctx (rateLimiter dc) = None \<and> Client_Do env req = Inr response \<and>
    resBody response = Inl readErr \<and>
    200 \<le> resStatusCode response \<and> resStatusCode response \<le> 299"
  then have "Do env dc ctx req res =
      \<lparr>err = Some (ErrReadBody readErr), client = updateRateLimitFromHeader dc response, slot = res,
       trace = [EvWait, EvTransport req]\<rparr>"
    by (simp add: Do_received Let_def)
  then show "err (Do env dc ctx req res) = Some (ErrReadBody readErr) \<and>
         slot (Do env dc ctx req res) = res \<and>
         (\<forall>b. EvUnmarshal b \<notin> set (trace (Do env dc ctx req res)))"
    by simp
qed

theorem Do_2xx_decode_witness:
  "slot (Do (mockServer 200 releaseBody) (testClient emptyConfig) (Some ())
          (mockRequest ''GET'' ''/releases/1'' None) (Some [])) = Some releaseBody \<and>
   err (Do (mockServer 200 releaseBody) (testClient emptyConfig) (Some ())
          (mockRequest ''GET'' ''/releases/1'' None) (Some [])) = None \<and>
   err (Do (mockServer 200 ''<html>'') (testClient emptyConfig) (Some ())
          (mockRequest ''GET'' ''/releases/1'' None) (Some [])) = Some (ErrUnmarshal ''invalid character'') \<and>
   err (Do (mockServer 204 []) (testClient emptyConfig) (Some ())
          (mockRequest ''DELETE'' ''/test'' None) (Some [])) = None \<and>
   slot (Do (mockServer 204 []) (testClient emptyConfig) (Some ())
          (mockRequest ''DELETE'' ''/test'' None) (Some [])) = Some [] \<and>
   err (Do (mockServer 200 releaseBody) (testClient emptyConfig) (Some ())
          (mockRequest ''GET'' ''/releases/1'' None) None) = None \<and>
   err (Do (mockEnv (Inr \<lparr>resStatusCode = 200, resHeader = Map.empty, resBody = Inl ''unexpected EOF''\<rparr>))
          (testClient emptyConfig) (Some ()) (mockRequest ''GET'' ''/releases/1'' None) (Some [])) =
     Some (ErrReadBody ''unexpected EOF'')"
proof -
  note t = Do_2xx_decode
  have ne: "releaseBody \<noteq> []" by (simp add: releaseBody_def)
  have a: "slot (Do (mockServer 200 releaseBody) (testClient emptyConfig) (Some ())
          (mockRequest ''GET'' ''/releases/1'' None) (Some [])) = Some releaseBody \<and>
      err (Do (mockServer 200 releaseBody) (testClient emptyConfig) (Some ())
          (mockRequest ''GET'' ''/releases/1'' None) (Some [])) = None"
    using t [THEN conjunct1, of "mockServer 200 releaseBody" "Some ()" "testClient emptyConfig"
        "mockRequest ''GET'' ''/releases/1'' None"
        "\<lparr>resStatusCode = 200, resHeader = Map.empty, resBody = Inr releaseBody\<rparr>" releaseBody "[]"] ne
    by (simp add: mockServer_def mock_Wait mock_Client_Do mock_Unmarshal_ok)
  have b: "err (Do (mockServer 200 ''<html>'') (testClient emptyConfig) (Some ())
          (mockRequest ''GET'' ''/releases/1'' None) (Some [])) = Some (ErrUnmarshal ''invalid character'')"
    using t [THEN conjunct1, of "mockServer 200 ''<html>''" "Some ()" "testClient emptyConfig"
        "mockRequest ''GET'' ''/releases/1'' None"
        "\<lparr>resStatusCode = 200, resHeader = Map.empty, resBody = Inr ''<html>''\<rparr>" "''<html>''" "[]"]
    by (simp add: mockServer_def mock_Wait mock_Client_Do mock_Unmarshal_bad)
  have c: "err (Do (mockServer 204 []) (testClient emptyConfig) (Some ())
          (mockRequest ''DELETE'' ''/test'' None) (Some [])) = None \<and>
      slot (Do (mockServer 204 []) (testClient emptyConfig) (Some ())
          (mockRequest ''DELETE'' ''/test'' None) (Some [])) = Some []"
    using t [THEN conjunct2, THEN conjunct1, of "mockServer 204 []" "Some ()" "testClient emptyConfig"
        "mockRequest ''DELETE'' ''/test'' None"
        "\<lparr>resStatusCode = 204, resHeader = Map.empty, resBody = Inr []\<rparr>" "[]" "Some []"]
    by (simp add: mockServer_def mock_Wait mock_Client_Do)
  have d: "err (Do (mockServer 200 releaseBody) (testClient emptyConfig) (Some ())
          (mockRequest ''GET'' ''/releases/1'' None) None) = None"
    using t [THEN conjunct2, THEN conjunct1, of "mockServer 200 releaseBody" "Some ()" "testClient emptyConfig"
        "mockRequest ''GET'' ''/releases/1'' None"
        "\<lparr>resStatusCode = 200, resHeader = Map.empty, resBody = Inr releaseBody\<rparr>" releaseBody None]
    by (simp add: mockServer_def mock_Wait mock_Client_Do)
  have e: "err (Do (mockEnv (Inr \<lparr>resStatusCode = 200, resHeader = Map.empty, resBody = Inl ''unexpected EOF''\<rparr>))
          (testClient emptyConfig) (Some ()) (mockRequest ''GET'' ''/releases/1'' None) (Some [])) =
     Some (ErrReadBody ''unexpected EOF'')"
    using t [THEN conjunct2, THEN conjunct2,
        of "mockEnv (Inr \<lparr>resStatusCode = 200, resHeader = Map.empty, resBody = Inl ''unexpected EOF''\<rparr>)"
        "Some ()" "testClient emptyConfig" "mockRequest ''GET'' ''/releases/1'' None"
        "\<lparr>resStatusCode = 200, resHeader = Map.empty, resBody = Inl ''unexpected EOF''\<rparr>"
        "''unexpected EOF''" "Some []"]
    by (simp add: mock_Wait mock_Client_Do)
  from a b c d e show ?thesis by simp
qed

text \<open>
  C6 as stated fails where the body cannot be read: for a response with status code 200
  whose body read fails, \<open>Do\<close> without an output slot returns the wrapped read error
  and not \<open>nil\<close>.
\<close>

theorem Do_2xx_decode_counterexample:
  "Client_Do (mockEnv (Inr \<lparr>resStatusCode = 200, resHeader = Map.empty, resBody = Inl ''unexpected EOF''\<rparr>))
       (mockRequest ''GET'' ''/test'' None) =
     Inr \<lparr>resStatusCode = 200, resHeader = Map.empty, resBody = Inl ''unexpected EOF''\<rparr> \<and>
   err (Do (mockEnv (Inr \<lparr>resStatusCode = 200, resHeader = Map.empty, resBody = Inl ''unexpected EOF''\<rparr>))
          (testClient emptyConfig) (Some ()) (mockRequest ''GET'' ''/test'' None) None) =
     Some (ErrReadBody ''unexpected EOF'')"
  by (simp add: Do_received mock_Wait mock_Client_Do Let_def)

text \<open>
  C7. When the pipeline answers a \<open>Release\<close> call with an \<open>HTTPError\<close>, the call
  returns no result; for status code 404 its error is the release-not-found error with
  the requested release identifier and that same \<open>HTTPError\<close> inside, and for any other
  status code it is that \<open>HTTPError\<close> unchanged. The \<open>HTTPError\<close> holds the status
  code and the body text of a response of the transport.
\<close>

theorem Release_not_found:
  "query_Values env options = Inr params \<and>
   err (Get env authMap dc ctx (''/releases/'' @ strconv_FormatInt releaseID) (Some params) []
          (Some (zero_value env))) = Some (ErrHTTP h) \<longrightarrow>
     (StatusCode h = 404 \<longrightarrow>
        err (Release env authMap dc ctx releaseID options) = Some (ErrReleaseNotFound releaseID h)) \<and>
     (StatusCode h \<noteq> 404 \<longrightarrow>
        err (Release env authMap dc ctx releaseID options) = Some (ErrHTTP h)) \<and>
     slot (Release env authMap dc ctx releaseID options) = None \<and>
     (\<exists>req response body. Client_Do env req = Inr response \<and> resBody response = Inr body \<and>
        h = \<lparr>StatusCode = resStatusCode response, Message = body\<rparr>)"
proof (intro impI)
  assume h: "query_Values env options = Inr params \<and>
   err (Get env authMap dc ctx (''/releases/'' @ strconv_FormatInt releaseID) (Some params) []
          (Some (zero_value env))) = Some (ErrHTTP h)"
  then have "err (request env authMap dc ctx ''GET'' (''/releases/'' @ strconv_FormatInt releaseID)
          (Some params) [] None (Some (zero_value env))) = Some (ErrHTTP h)"
    by (simp only: Get_def)
  then have ex: "\<exists>req response body. Client_Do env req = Inr response \<and> resBody response = Inr body \<and>
        h = \<lparr>StatusCode = resStatusCode response, Message = body\<rparr>"
    by (rule request_ErrHTTP)
  from h have "(StatusCode h = 404 \<longrightarrow>
        err (Release env authMap dc ctx releaseID options) = Some (ErrReleaseNotFound releaseID h)) \<and>
     (StatusCode h \<noteq> 404 \<longrightarrow>
        err (Release env authMap dc ctx releaseID options) = Some (ErrHTTP h)) \<and>
     slot (Release env authMap dc ctx releaseID options) = None"
    by (simp add: Release_def Let_def)
  with ex show "(StatusCode h = 404 \<longrightarrow>
        err (Release env authMap dc ctx releaseID options) = Some (ErrReleaseNotFound releaseID h)) \<and>
     (StatusCode h \<noteq> 404 \<longrightarrow>
        err (Release env authMap dc ctx releaseID options) = Some (ErrHTTP h)) \<and>
     slot (Release env authMap dc ctx releaseID options) = None \<and>
     (\<exists>req response body. Client_Do env req = Inr response \<and> resBody response = Inr body \<and>
        h = \<lparr>StatusCode = resStatusCode response, Message = body\<rparr>)"
    by simp
qed

theorem Release_not_found_witness:
  "err (Release (mockServer 404 notFoundBody) EndpointAuthMap (testClient keyedConfig) (Some ()) 2 ()) =
     Some (ErrReleaseNotFound 2 \<lparr>StatusCode = 404, Message = notFoundBody\<rparr>) \<and>
   slot (Release (mockServer 404 notFoundBody) EndpointAuthMap (testClient keyedConfig) (Some ()) 2 ()) = None \<and>
   err (Release (mockServer 500 serverErrorBody) EndpointAuthMap (testClient keyedConfig) (Some ()) 2 ()) =
     Some (ErrHTTP \<lparr>StatusCode = 500, Message = serverErrorBody\<rparr>) \<and>
   slot (Release (mockServer 500 serverErrorBody) EndpointAuthMap (testClient keyedConfig) (Some ()) 2 ()) = None"
proof -
  let ?dc = "testClient keyedConfig"
  have f: "strconv_FormatInt 2 = ''2''"
    by (simp add: strconv_FormatInt_def)
  have qv: "query_Values (mockServer s b) () = Inr []" for s b
    by (simp add: mockServer_def mockEnv_def)
  have z: "zero_value (mockServer s b) = []" for s b
    by (simp add: mockServer_def mockEnv_def)
  have g: "err (Get (mockServer s b) EndpointAuthMap ?dc (Some ()) (''/releases/'' @ strconv_FormatInt 2)
             (Some []) [] (Some (zero_value (mockServer s b)))) = Some (ErrHTTP \<lparr>StatusCode = s, Message = b\<rparr>)"
    if "s < 200 \<or> 299 < s" for s b
  proof -
    have "request (mockServer s b) EndpointAuthMap ?dc (Some ()) ''GET'' ''/releases/2'' (Some []) [] None (Some [])
        = Do (mockServer s b) ?dc (Some ())
            ((mockRequest ''GET'' ''/releases/2'' None)
               \<lparr>reqHeader := Header_Set Map.empty UserAgentHeader (AppName (Config ?dc))\<rparr>) (Some [])"
      unfolding mockServer_def
      using mock_request_prepared [of "''releases/2''" "Some []" _ EndpointAuthMap keyedConfig "''GET''" "Some []"]
      by (simp add: matchRoute_release_2 addAuthHeaders_def AuthTypeNone_def)
    moreover have "err (Do (mockServer s b) ?dc (Some ())
            ((mockRequest ''GET'' ''/releases/2'' None)
               \<lparr>reqHeader := Header_Set Map.empty UserAgentHeader (AppName (Config ?dc))\<rparr>) (Some []))
        = Some (ErrHTTP \<lparr>StatusCode = s, Message = b\<rparr>)"
      using that by (auto simp: Do_received mockServer_def mock_Wait mock_Client_Do Let_def)
    ultimately show ?thesis
      by (simp add: Get_def f z)
  qed
  note t = Release_not_found [of _ "()" "[]" EndpointAuthMap ?dc "Some ()" 2, rule_format]
  have a: "err (Release (mockServer 404 notFoundBody) EndpointAuthMap ?dc (Some ()) 2 ()) =
       Some (ErrReleaseNotFound 2 \<lparr>StatusCode = 404, Message = notFoundBody\<rparr>) \<and>
     slot (Release (mockServer 404 notFoundBody) EndpointAuthMap ?dc (Some ()) 2 ()) = None"
    using t [OF conjI [OF qv g], of 404 notFoundBody] by simp
  have b: "err (Release (mockServer 500 serverErrorBody) EndpointAuthMap ?dc (Some ()) 2 ()) =
       Some (ErrHTTP \<lparr>StatusCode = 500, Message = serverErrorBody\<rparr>) \<and>
     slot (Release (mockServer 500 serverErrorBody) EndpointAuthMap ?dc (Some ()) 2 ()) = None"
    using t [OF conjI [OF qv g], of 500 serverErrorBody] by simp
  from a b show ?thesis by simp
qed

text \<open>
  C8. Whenever the transport hands \<open>Do\<close> a response, the client \<open>Do\<close> leaves behind
  is the client updated from that response's rate-limit header, whatever the status code
  is and whether or not the body can be read: the update comes before the status code is
  looked at, so a response outside 200 to 299 recalibrates the limiter as well.
\<close>

theorem Do_updates_limiter_any_status:
  "Limiter_Wait env ctx (rateLimiter dc) = None \<and> Client_Do env req = Inr response \<longrightarrow>
     client (Do env dc ctx req res) = updateRateLimitFromHeader dc response"
proof (intro impI)
  assume h: "Limiter_Wait env ctx (rateLimiter dc) = None \<and> Client_Do env req = Inr response"
  show "client (Do env dc ctx req res) = updateRateLimitFromHeader dc response"
  proof (cases "resBody response")
    case (Inl e)
    with h show ?thesis by (simp add: Do_received Let_def)
  next
    case (Inr responseBody)
    with h show ?thesis
      by (simp add: Do_received Let_def split: option.splits prod.splits)
  qed
qed

theorem Do_updates_limiter_any_status_witness:
  "rateLimiter (client (Do (mockEnv (Inr ((createMockResponse 25)\<lparr>resStatusCode := 500\<rparr>)))
       (testClient (emptyConfig\<lparr>MaxRequests := 50\<rparr>)) (Some ())
       (mockRequest ''GET'' ''/test'' None) None)) = \<lparr>limit = Interval 2400000000, burst = 25\<rparr> \<and>
   rateLimiter (client (Do (mockEnv (Inr (createMockResponse 25)))
       (testClient (emptyConfig\<lparr>MaxRequests := 50\<rparr>)) (Some ())
       (mockRequest ''GET'' ''/test'' None) None)) = \<lparr>limit = Interval 2400000000, burst = 25\<rparr> \<and>
   rateLimiter (testClient (emptyConfig\<lparr>MaxRequests := 50\<rparr>)) = \<lparr>limit = Interval 1200000000, burst = 50\<rparr>"
proof -
  let ?dc = "testClient (emptyConfig\<lparr>MaxRequests := 50\<rparr>)"
  have f25: "strconv_FormatInt 25 = ''25''"
    by (simp add: strconv_FormatInt_def)
  have a25: "strconv_Atoi ''25'' = Some 25"
    by (simp add: strconv_Atoi_def isDigit_def digitsValue_def Let_def)
  have h: "strconv_Atoi (Header_Get (resHeader ((createMockResponse 25)\<lparr>resStatusCode := s\<rparr>)) RateLimitHeader)
      = Some 25" for s
    using Header_Get_createMockResponse [of 25] by (simp add: f25 a25)
  have h': "strconv_Atoi (Header_Get (resHeader (createMockResponse 25)) RateLimitHeader) = Some 25"
    using Header_Get_createMockResponse [of 25] by (simp add: f25 a25)
  have c: "MaxRequests (Config ?dc) = 50"
    by (simp add: testClient_def NewDiscogsClient_def emptyConfig_def Let_def)
  have q: "rate_Every (quo time_Minute 25) = Interval 2400000000"
    by (simp add: rate_Every_def quo_def time_Minute_def)
  have u: "rateLimiter (updateRateLimitFromHeader ?dc ((createMockResponse 25)\<lparr>resStatusCode := s\<rparr>))
      = \<lparr>limit = Interval 2400000000, burst = 25\<rparr>" for s
    by (simp add: update_unfold [OF h] c q Let_def)
  have u': "rateLimiter (updateRateLimitFromHeader ?dc (createMockResponse 25))
      = \<lparr>limit = Interval 2400000000, burst = 25\<rparr>"
    by (simp add: update_unfold [OF h'] c q Let_def)
  have w1: "rateLimiter (client (Do (mockEnv (Inr ((createMockResponse 25)\<lparr>resStatusCode := 500\<rparr>)))
       ?dc (Some ()) (mockRequest ''GET'' ''/test'' None) None)) = \<lparr>limit = Interval 2400000000, burst = 25\<rparr>"
    using Do_updates_limiter_any_status [of "mockEnv (Inr ((createMockResponse 25)\<lparr>resStatusCode := 500\<rparr>))"
        "Some ()" ?dc "mockRequest ''GET'' ''/test'' None" "(createMockResponse 25)\<lparr>resStatusCode := 500\<rparr>" None]
    by (simp add: mock_Wait mock_Client_Do u)
  have w2: "rateLimiter (client (Do (mockEnv (Inr (createMockResponse 25)))
       ?dc (Some ()) (mockRequest ''GET'' ''/test'' None) None)) = \<lparr>limit = Interval 2400000000, burst = 25\<rparr>"
    using Do_updates_limiter_any_status [of "mockEnv (Inr (createMockResponse 25))"
        "Some ()" ?dc "mockRequest ''GET'' ''/test'' None" "createMockResponse 25" None]
    by (simp add: mock_Wait mock_Client_Do u')
  have w3: "rateLimiter ?dc = \<lparr>limit = Interval 1200000000, burst = 50\<rparr>"
    by (simp add: testClient_def NewDiscogsClient_def emptyConfig_def Let_def rate_NewLimiter_def
        rate_Every_def quo_def time_Minute_def)
  from w1 w2 w3 show ?thesis by simp
qed

text \<open>
  C9. For an auth class other than \<open>none\<close>, \<open>key-secret\<close>, \<open>oauth\<close> and
  \<open>personal-access-token\<close>, and so for the class \<open>unknown\<close>, \<open>addAuthHeaders\<close>
  returns no error and leaves the request, with its headers, as it was: no Authorization
  header is set and the request goes on without credentials.
\<close>

theorem addAuthHeaders_unrecognized:
  "(authType \<noteq> AuthTypeNone \<and> authType \<noteq> AuthTypeKeySecret \<and>
    authType \<noteq> AuthTypeOAuth \<and> authType \<noteq> AuthTypePAT \<longrightarrow>
      fst (addAuthHeaders dc req authType) = None \<and>
      reqHeader (snd (addAuthHeaders dc req authType)) = reqHeader req \<and>
      snd (addAuthHeaders dc req authType) = req)
   \<and> addAuthHeaders dc req AuthTypeUnknown = (None, req)"
  by (simp add: addAuthHeaders_def AuthTypeUnknown_def AuthTypeNone_def AuthTypeKeySecret_def
      AuthTypeOAuth_def AuthTypePAT_def)

theorem addAuthHeaders_unrecognized_witness:
  "''basic'' \<noteq> AuthTypeNone \<and> ''basic'' \<noteq> AuthTypeKeySecret \<and>
   ''basic'' \<noteq> AuthTypeOAuth \<and> ''basic'' \<noteq> AuthTypePAT \<and>
   fst (addAuthHeaders (NewDiscogsClient emptyConfig)
          \<lparr>Method = ''GET'', reqURL = \<lparr>Scheme = [], Authority = [], Path = ''/test'', RawQuery = []\<rparr>,
           reqHeader = Map.empty, Body = None\<rparr> ''basic'') = None \<and>
   reqHeader (snd (addAuthHeaders (NewDiscogsClient emptyConfig)
          \<lparr>Method = ''GET'', reqURL = \<lparr>Scheme = [], Authority = [], Path = ''/test'', RawQuery = []\<rparr>,
           reqHeader = Map.empty, Body = None\<rparr> ''basic'')) AuthHeader = None"
proof -
  have ne: "''basic'' \<noteq> AuthTypeNone \<and> ''basic'' \<noteq> AuthTypeKeySecret \<and>
      ''basic'' \<noteq> AuthTypeOAuth \<and> ''basic'' \<noteq> AuthTypePAT"
    by (simp add: AuthTypeNone_def AuthTypeKeySecret_def AuthTypeOAuth_def AuthTypePAT_def)
  show ?thesis
    using addAuthHeaders_unrecognized [THEN conjunct1, of "''basic''" "NewDiscogsClient emptyConfig"
        "\<lparr>Method = ''GET'', reqURL = \<lparr>Scheme = [], Authority = [], Path = ''/test'', RawQuery = []\<rparr>,
           reqHeader = Map.empty, Body = None\<rparr>"] ne
    by simp
qed

text \<open>
  C10. \<open>SetMaxRequests\<close> with a number of requests per minute that is zero or negative
  changes nothing: the limiter's rate, the limiter's burst and the \<open>MaxRequests\<close> of the
  configuration stay as they were.
\<close>

theorem SetMaxRequests_nonpositive:
  "requestsPerMinute \<le> 0 \<longrightarrow>
     limit (rateLimiter (SetMaxRequests dc requestsPerMinute)) = limit (rateLimiter dc) \<and>
     burst (rateLimiter (SetMaxRequests dc requestsPerMinute)) = burst (rateLimiter dc) \<and>
     MaxRequests (Config (SetMaxRequests dc requestsPerMinute)) = MaxRequests (Config dc) \<and>
     SetMaxRequests dc requestsPerMinute = dc"
  by (simp add: SetMaxRequests_def)

theorem SetMaxRequests_nonpositive_witness:
  "(-5 :: int) \<le> 0 \<and>
   SetMaxRequests (NewDiscogsClient emptyConfig) (-5) = NewDiscogsClient emptyConfig \<and>
   SetMaxRequests (NewDiscogsClient emptyConfig) 0 = NewDiscogsClient emptyConfig"
  using SetMaxRequests_nonpositive [of "-5" "NewDiscogsClient emptyConfig"]
    SetMaxRequests_nonpositive [of 0 "NewDiscogsClient emptyConfig"]
  by simp

end
